theory Spec2Isabelle
  imports Complex_Main "HOL-Library.Sublist" "HOL-Library.AList"
begin

section \<open>Text and time as the enrichment core sees them\<close>

text \<open>
  Python \<^verbatim>\<open>str\<close> values are modelled as \<^typ>\<open>string\<close>, lists of 8-bit characters.
  The character classes and the case mapping below are those Python applies to ASCII
  text: \<^verbatim>\<open>str.lower\<close> maps A-Z to a-z, \<^verbatim>\<open>str.strip\<close> removes the ASCII
  white space characters, and the regular expression class \<^verbatim>\<open>\w\<close> is
  \<^verbatim>\<open>[A-Za-z0-9_]\<close>. Characters above 127 are left alone by \<open>lower\<close> and count
  neither as white space nor as word characters, which is not what Python does with the
  letters and spaces of other scripts: the statements about trimming, lower-casing and
  word matching are therefore made for ASCII text, \<open>isascii\<close> below.

  Scores are Python floats in the source. They are modelled as exact rationals: the
  sums are the sums the code writes, binary rounding is not followed.

  A naive \<^verbatim>\<open>datetime\<close> is the number of microseconds since a fixed epoch; the
  difference of two of them is a \<^verbatim>\<open>timedelta\<close>, again in microseconds.
\<close>

type_synonym datetime = int
type_synonym timedelta = int

definition usec_per_day :: int where
  "usec_per_day = 86400000000"

definition timedelta_days :: "timedelta \<Rightarrow> int" where
  \<comment> \<open>\<^verbatim>\<open>timedelta.days\<close>: whole days, rounded towards minus infinity\<close>
  "timedelta_days td = td div usec_per_day"

definition ascii_uppercase :: string where
  "ascii_uppercase = ''ABCDEFGHIJKLMNOPQRSTUVWXYZ''"

definition ascii_lowercase :: string where
  "ascii_lowercase = ''abcdefghijklmnopqrstuvwxyz''"

definition digits :: string where
  "digits = ''0123456789''"

definition lower_char :: "char \<Rightarrow> char" where
  "lower_char c = (case map_of (zip ascii_uppercase ascii_lowercase) c of Some l \<Rightarrow> l | None \<Rightarrow> c)"

definition lower :: "string \<Rightarrow> string" where
  \<comment> \<open>\<^verbatim>\<open>s.lower()\<close>\<close>
  "lower s = map lower_char s"

definition isspace :: "char \<Rightarrow> bool" where
  \<comment> \<open>tab, line feed, vertical tab, form feed, carriage return, the four separators
     0x1C-0x1F, and the space\<close>
  "isspace c =
     (c \<in> set [CHR 0x09, CHR 0x0A, CHR 0x0B, CHR 0x0C, CHR 0x0D,
                CHR 0x1C, CHR 0x1D, CHR 0x1E, CHR 0x1F, CHR 0x20])"

definition is_word_char :: "char \<Rightarrow> bool" where
  \<comment> \<open>the class \<^verbatim>\<open>\w\<close>\<close>
  "is_word_char c = (c \<in> set (ascii_lowercase @ ascii_uppercase @ digits @ ''_''))"

definition isascii :: "string \<Rightarrow> bool" where
  \<comment> \<open>\<^verbatim>\<open>s.isascii()\<close>: every character is below 128\<close>
  "isascii s = list_all (\<lambda>c. \<not> digit7 c) s"

fun str_contains :: "string \<Rightarrow> string \<Rightarrow> bool" where
  \<comment> \<open>\<^verbatim>\<open>sub in s\<close>\<close>
  "str_contains sub [] = (sub = [])"
| "str_contains sub (c # cs) = (prefix sub (c # cs) \<or> str_contains sub cs)"

definition dict_get :: "('k \<times> 'v) list \<Rightarrow> 'k \<Rightarrow> 'v \<Rightarrow> 'v" where
  \<comment> \<open>\<^verbatim>\<open>d.get(k, default)\<close> on a dict literal\<close>
  "dict_get d k dflt = (case map_of d k of Some v \<Rightarrow> v | None \<Rightarrow> dflt)"


section \<open>Credibility scorer\<close>

definition TYPE_SCORES :: "(string \<times> rat) list" where
  "TYPE_SCORES =
     [(''paper'', 0.4), (''book'', 0.35), (''article'', 0.25),
      (''technical_doc'', 0.3), (''blog_post'', 0.15), (''interview'', 0.2)]"

definition PRESTIGIOUS_VENUES :: "string list" where
  "PRESTIGIOUS_VENUES =
     [''nature'', ''science'', ''cell'', ''nejm'', ''lancet'',
      ''neurips'', ''icml'', ''iclr'', ''cvpr'', ''acl'',
      ''physical review'', ''quantum'', ''ieee'']"

definition PRESTIGIOUS :: "string list" where
  "PRESTIGIOUS = [''nature'', ''science'', ''neurips'', ''icml'', ''iclr'']"

text \<open>
  \<^verbatim>\<open>calculate_credibility_score\<close> of \<^verbatim>\<open>preprocessing_recommendation.py\<close>. The
  source has five parameters and calls \<^verbatim>\<open>datetime.now()\<close> in its body; the first
  argument \<open>now\<close> of the model is the value that call returns. An empty venue string is
  falsy in Python, a \<^verbatim>\<open>datetime\<close> never is.
\<close>

definition calculate_credibility_score ::
  "datetime \<Rightarrow> string \<Rightarrow> string option \<Rightarrow> bool \<Rightarrow> datetime option \<Rightarrow> string list \<Rightarrow> rat" where
  "calculate_credibility_score now doc_type publication_venue peer_reviewed publication_date authors =
     (let score0 = 0 + dict_get TYPE_SCORES doc_type 0.1;
          score1 = (if peer_reviewed then score0 + 0.3 else score0);
          score2 = (case publication_venue of
                      None \<Rightarrow> score1
                    | Some pv \<Rightarrow>
                        if pv \<noteq> [] \<and> list_ex (\<lambda>venue. str_contains venue (lower pv)) PRESTIGIOUS_VENUES
                        then score1 + 0.2 else score1);
          score3 = (case publication_date of
                      None \<Rightarrow> score2
                    | Some d \<Rightarrow>
                        let years_old = (of_int (timedelta_days (now - d)) / 365 :: rat)
                        in if years_old < 2 then score2 + 0.1
                           else if years_old > 10 then score2 - 0.05
                           else score2);
          score4 = (if length authors \<ge> 3 then score3 + 0.05 else score3)
      in min score4 1.0)"

text \<open>
  \<^verbatim>\<open>calculate_credibility_score\<close> of \<^verbatim>\<open>example_multi_user_ingestion.py\<close>: other
  parameter order, a list of five venues, and no branch for old documents.
\<close>

definition calculate_credibility_score_ingestion ::
  "datetime \<Rightarrow> string \<Rightarrow> bool \<Rightarrow> string option \<Rightarrow> datetime option \<Rightarrow> string list \<Rightarrow> rat" where
  "calculate_credibility_score_ingestion now doc_type peer_reviewed publication_venue publication_date authors =
     (let score0 = 0 + dict_get TYPE_SCORES doc_type 0.1;
          score1 = (if peer_reviewed then score0 + 0.3 else score0);
          score2 = (case publication_venue of
                      None \<Rightarrow> score1
                    | Some pv \<Rightarrow>
                        if pv \<noteq> [] \<and> list_ex (\<lambda>v. str_contains v (lower pv)) PRESTIGIOUS
                        then score1 + 0.2 else score1);
          score3 = (case publication_date of
                      None \<Rightarrow> score2
                    | Some d \<Rightarrow>
                        let years_old = (of_int (timedelta_days (now - d)) / 365 :: rat)
                        in if years_old < 2 then score2 + 0.1 else score2);
          score4 = (if length authors \<ge> 3 then score3 + 0.05 else score3)
      in min score4 1.0)"


subsection \<open>The additive formula as the specification words it\<close>

definition base_score_spec :: "string \<Rightarrow> rat" where
  "base_score_spec doc_type =
     (if doc_type = ''paper'' then 0.40
      else if doc_type = ''book'' then 0.35
      else if doc_type = ''technical_doc'' then 0.30
      else if doc_type = ''article'' then 0.25
      else if doc_type = ''interview'' then 0.20
      else if doc_type = ''blog_post'' then 0.15
      else 0.10)"

definition prestige_list_spec :: "string list" where
  "prestige_list_spec =
     [''nature'', ''science'', ''neurips'', ''icml'', ''iclr'',
      ''cell'', ''nejm'', ''lancet'', ''cvpr'', ''acl'', ''ieee'', ''quantum'',
      ''physical review'']"

definition peer_bonus_spec :: "bool \<Rightarrow> rat" where
  "peer_bonus_spec peer_reviewed = (if peer_reviewed then 0.30 else 0)"

definition venue_bonus_spec :: "string list \<Rightarrow> string option \<Rightarrow> rat" where
  "venue_bonus_spec prestige publication_venue =
     (case publication_venue of
        None \<Rightarrow> 0
      | Some pv \<Rightarrow> if list_ex (\<lambda>p. str_contains p (lower pv)) prestige then 0.20 else 0)"

definition age_years_spec :: "datetime \<Rightarrow> datetime \<Rightarrow> rat" where
  \<comment> \<open>\<^verbatim>\<open>(reference_now - publication_date) / 365 days\<close>\<close>
  "age_years_spec reference_now d = of_int (reference_now - d) / of_int (365 * usec_per_day)"

definition recency_spec :: "datetime \<Rightarrow> datetime option \<Rightarrow> rat" where
  "recency_spec reference_now publication_date =
     (case publication_date of
        None \<Rightarrow> 0
      | Some d \<Rightarrow>
          if age_years_spec reference_now d < 2 then 0.10
          else if age_years_spec reference_now d > 10 then - 0.05
          else 0)"

definition authors_bonus_spec :: "string list \<Rightarrow> rat" where
  "authors_bonus_spec authors = (if 3 \<le> length authors then 0.05 else 0)"

definition credibility_spec ::
  "string \<Rightarrow> bool \<Rightarrow> string option \<Rightarrow> datetime option \<Rightarrow> string list \<Rightarrow> datetime \<Rightarrow> rat" where
  "credibility_spec doc_type peer_reviewed publication_venue publication_date authors reference_now =
     min (base_score_spec doc_type + peer_bonus_spec peer_reviewed
          + venue_bonus_spec prestige_list_spec publication_venue
          + recency_spec reference_now publication_date
          + authors_bonus_spec authors) 1.0"

text \<open>The recency adjustment counted in whole elapsed days, with and without the deduction.\<close>

definition recency_whole_days :: "datetime \<Rightarrow> datetime option \<Rightarrow> rat" where
  "recency_whole_days now publication_date =
     (case publication_date of
        None \<Rightarrow> 0
      | Some d \<Rightarrow>
          if timedelta_days (now - d) < 730 then 0.10
          else if 3650 < timedelta_days (now - d) then - 0.05
          else 0)"

definition recency_bonus_only :: "datetime \<Rightarrow> datetime option \<Rightarrow> rat" where
  "recency_bonus_only now publication_date =
     (case publication_date of
        None \<Rightarrow> 0
      | Some d \<Rightarrow> if timedelta_days (now - d) < 730 then 0.10 else 0)"


section \<open>Normalizer\<close>

datatype issue = Missing string | NotInRange string

datatype error = ValidationError "issue list" | IndexError | TypeError | ReError

fun split_on :: "char \<Rightarrow> string \<Rightarrow> string list" where
  \<comment> \<open>\<^verbatim>\<open>s.split(sep)\<close> for a separator of one character\<close>
  "split_on sep [] = [[]]"
| "split_on sep (c # cs) =
     (if c = sep then [] # split_on sep cs
      else (case split_on sep cs of [] \<Rightarrow> [[c]] | p # ps \<Rightarrow> (c # p) # ps))"

definition strip :: "string \<Rightarrow> string" where
  \<comment> \<open>\<^verbatim>\<open>s.strip()\<close>\<close>
  "strip s = rev (dropWhile isspace (rev (dropWhile isspace s)))"

function str_replace :: "string \<Rightarrow> string \<Rightarrow> string \<Rightarrow> string" where
  \<comment> \<open>\<^verbatim>\<open>s.replace(old, new)\<close>: the occurrences of \<open>old\<close> from left to right, not overlapping\<close>
  "str_replace old new [] = (if old = [] then new else [])"
| "str_replace old new (c # cs) =
     (if old = [] then new @ c # str_replace old new cs
      else if prefix old (c # cs) then new @ str_replace old new (drop (length old) (c # cs))
      else c # str_replace old new cs)"
  by pat_completeness auto
termination
  by (relation "measure (\<lambda>(old, new, s). length s)") auto

text \<open>
  The validator \<^verbatim>\<open>normalize_author_names\<close> (the same text in both files). Reading
  \<^verbatim>\<open>parts[1]\<close> of a list with fewer than two elements raises \<^verbatim>\<open>IndexError\<close>.
\<close>

definition normalize_author_names :: "string \<Rightarrow> error + string" where
  "normalize_author_names author =
     (if CHR '','' \<in> set author then
        (let parts = map strip (split_on (CHR '','') author)
         in case parts of
              p0 # p1 # _ \<Rightarrow> Inr (p1 @ '' '' @ p0)
            | _ \<Rightarrow> Inl IndexError)
      else Inr author)"

definition lowercase_and_normalize :: "string list \<Rightarrow> string list" where
  "lowercase_and_normalize values = map (\<lambda>v. str_replace '' '' ''_'' (lower v)) values"

definition first_part :: "string \<Rightarrow> string" where
  \<comment> \<open>the text before the first comma\<close>
  "first_part author = takeWhile (\<lambda>c. c \<noteq> CHR '','') author"

definition second_part :: "string \<Rightarrow> string" where
  \<comment> \<open>the text between the first comma and the second, or the end\<close>
  "second_part author =
     takeWhile (\<lambda>c. c \<noteq> CHR '','') (tl (dropWhile (\<lambda>c. c \<noteq> CHR '','') author))"

definition author_first_last :: "string \<Rightarrow> string" where
  \<comment> \<open>the second part, a space, the first part; a name without comma as it is\<close>
  "author_first_last author =
     (if CHR '','' \<in> set author
      then strip (second_part author) @ '' '' @ strip (first_part author)
      else author)"

definition space_to_underscore :: "char \<Rightarrow> char" where
  "space_to_underscore c = (if c = CHR '' '' then CHR ''_'' else c)"

subsection \<open>The two rules as the specification words them\<close>

fun split_first :: "char \<Rightarrow> string \<Rightarrow> string \<times> string" where
  \<comment> \<open>the text before and after the first occurrence of \<open>sep\<close>\<close>
  "split_first sep [] = ([], [])"
| "split_first sep (c # cs) =
     (if c = sep then ([], cs) else (let (a, b) = split_first sep cs in (c # a, b)))"

definition normalize_author_spec :: "string \<Rightarrow> string" where
  "normalize_author_spec name =
     (if CHR '','' \<in> set name then
        (let (last_name, first_name) = split_first (CHR '','') name
         in strip first_name @ '' '' @ strip last_name)
      else name)"

fun collapse_whitespace :: "bool \<Rightarrow> string \<Rightarrow> string" where
  \<comment> \<open>every run of white space becomes one underscore; the flag says that the
     character before was white space\<close>
  "collapse_whitespace in_run [] = []"
| "collapse_whitespace in_run (c # cs) =
     (if isspace c then
        (if in_run then collapse_whitespace True cs else CHR ''_'' # collapse_whitespace True cs)
      else c # collapse_whitespace False cs)"

definition normalize_token_spec :: "string \<Rightarrow> string" where
  "normalize_token_spec v = collapse_whitespace False (lower v)"


section \<open>Metadata model\<close>

text \<open>
  \<^verbatim>\<open>DocumentMetadata\<close> of \<^verbatim>\<open>preprocessing_recommendation.py\<close>. The keyword
  arguments of the constructor are a record of optional values, \<open>None\<close> for a key that
  is not given; every value that is given has the type its field declares.

  The classes use the validator decorator of pydantic 1 and run under pydantic 2, whose
  compatibility layer looks at the parameter names of a validator: one named
  \<^verbatim>\<open>values\<close> is taken to ask for the fields validated so far, and the validator is
  called as \<^verbatim>\<open>validator(value, values=info.data)\<close>. The only parameter of
  \<^verbatim>\<open>lowercase_and_normalize(cls, values)\<close> has that name, so the call gives it two
  values and Python raises \<^verbatim>\<open>TypeError\<close>, which pydantic lets through. A validator
  runs only for a key that is given. A missing field or a score out of range is
  collected and reported at the end; an exception that is not a validation error ends
  the construction where it is raised.
\<close>

record property_bag =
  bag_title :: "string option"
  bag_authors :: "string list option"
  bag_publication_date :: "datetime option"
  bag_source_url :: "string option"
  bag_primary_topic :: "string option"
  bag_subtopics :: "string list option"
  bag_keywords :: "string list option"
  bag_doc_type :: "string option"
  bag_credibility_score :: "rat option"
  bag_publication_venue :: "string option"
  bag_peer_reviewed :: "bool option"
  bag_language :: "string option"
  bag_reading_level :: "string option"
  bag_estimated_read_time_minutes :: "int option"
  bag_external_ids :: "(string \<times> string) list option"
  bag_cited_works :: "string list option"
  bag_custom_tags :: "string list option"
  bag_content_warnings :: "string list option"

record DocumentMetadata =
  title_md :: string
  authors_md :: "string list"
  publication_date_md :: "datetime option"
  source_url_md :: "string option"
  primary_topic_md :: string
  subtopics_md :: "string list"
  keywords_md :: "string list"
  doc_type_md :: string
  credibility_score_md :: "rat option"
  publication_venue_md :: "string option"
  peer_reviewed_md :: bool
  language_md :: string
  reading_level_md :: "string option"
  estimated_read_time_minutes_md :: "int option"
  external_ids_md :: "(string \<times> string) list"
  cited_works_md :: "string list"
  custom_tags_md :: "string list"
  content_warnings_md :: "string list"

fun each_item :: "('a \<Rightarrow> error + 'b) \<Rightarrow> 'a list \<Rightarrow> error + 'b list" where
  \<comment> \<open>a validator run on every element, the first exception ending the run\<close>
  "each_item f [] = Inr []"
| "each_item f (x # xs) =
     (case f x of
        Inl e \<Rightarrow> Inl e
      | Inr y \<Rightarrow> (case each_item f xs of Inl e \<Rightarrow> Inl e | Inr ys \<Rightarrow> Inr (y # ys)))"

definition required :: "string \<Rightarrow> 'a option \<Rightarrow> issue list" where
  \<comment> \<open>a field declared with \<^verbatim>\<open>Field(...)\<close> or without default\<close>
  "required name v = (case v of None \<Rightarrow> [Missing name] | Some _ \<Rightarrow> [])"

definition ge_le :: "string \<Rightarrow> rat \<Rightarrow> rat \<Rightarrow> rat option \<Rightarrow> issue list" where
  \<comment> \<open>\<^verbatim>\<open>Field(None, ge=lo, le=hi)\<close>\<close>
  "ge_le name lo hi v =
     (case v of None \<Rightarrow> [] | Some x \<Rightarrow> if lo \<le> x \<and> x \<le> hi then [] else [NotInRange name])"

definition or_default :: "'a option \<Rightarrow> 'a \<Rightarrow> 'a" where
  "or_default v dflt = (case v of None \<Rightarrow> dflt | Some x \<Rightarrow> x)"

definition validation_issues :: "property_bag \<Rightarrow> issue list" where
  \<comment> \<open>the field checks, in the order of the declarations; both classes declare the same\<close>
  "validation_issues bag =
     required ''title'' (bag_title bag)
     @ required ''primary_topic'' (bag_primary_topic bag)
     @ required ''doc_type'' (bag_doc_type bag)
     @ ge_le ''credibility_score'' 0 1 (bag_credibility_score bag)"

definition called_with_values :: "(string list \<Rightarrow> string list) \<Rightarrow> string list \<Rightarrow> error + string list" where
  \<comment> \<open>\<^verbatim>\<open>validator(value, values=info.data)\<close> for a validator whose one parameter is
     named \<^verbatim>\<open>values\<close>: the parameter is bound twice\<close>
  "called_with_values validator value = Inl TypeError"

definition validated_tokens :: "string list option \<Rightarrow> error + string list" where
  \<comment> \<open>the fields \<^verbatim>\<open>subtopics\<close> and \<^verbatim>\<open>keywords\<close>: the default when the key is not given\<close>
  "validated_tokens given =
     (case given of
        None \<Rightarrow> Inr []
      | Some value \<Rightarrow> called_with_values lowercase_and_normalize value)"

definition DocumentMetadata_init :: "property_bag \<Rightarrow> error + DocumentMetadata" where
  "DocumentMetadata_init bag =
     (case each_item normalize_author_names (or_default (bag_authors bag) []) of
        Inl e \<Rightarrow> Inl e
      | Inr normalized_authors \<Rightarrow>
     (case validated_tokens (bag_subtopics bag) of
        Inl e \<Rightarrow> Inl e
      | Inr normalized_subtopics \<Rightarrow>
     (case validated_tokens (bag_keywords bag) of
        Inl e \<Rightarrow> Inl e
      | Inr normalized_keywords \<Rightarrow>
          (let issues = validation_issues bag
           in if issues = [] then
                Inr \<lparr> title_md = or_default (bag_title bag) [],
                      authors_md = normalized_authors,
                      publication_date_md = bag_publication_date bag,
                      source_url_md = bag_source_url bag,
                      primary_topic_md = or_default (bag_primary_topic bag) [],
                      subtopics_md = normalized_subtopics,
                      keywords_md = normalized_keywords,
                      doc_type_md = or_default (bag_doc_type bag) [],
                      credibility_score_md = bag_credibility_score bag,
                      publication_venue_md = bag_publication_venue bag,
                      peer_reviewed_md = or_default (bag_peer_reviewed bag) False,
                      language_md = or_default (bag_language bag) ''en'',
                      reading_level_md = bag_reading_level bag,
                      estimated_read_time_minutes_md = bag_estimated_read_time_minutes bag,
                      external_ids_md = or_default (bag_external_ids bag) [],
                      cited_works_md = or_default (bag_cited_works bag) [],
                      custom_tags_md = or_default (bag_custom_tags bag) [],
                      content_warnings_md = or_default (bag_content_warnings bag) [] \<rparr>
              else Inl (ValidationError issues)))))"

text \<open>
  \<^verbatim>\<open>DocumentMetadata\<close> of \<^verbatim>\<open>example_multi_user_ingestion.py\<close>: fourteen fields, the
  author validator only. Keys of the bag that the class does not declare are ignored.
\<close>

record DocumentMetadata_ingestion =
  title_i :: string
  authors_i :: "string list"
  publication_date_i :: "datetime option"
  source_url_i :: "string option"
  primary_topic_i :: string
  subtopics_i :: "string list"
  keywords_i :: "string list"
  doc_type_i :: string
  credibility_score_i :: "rat option"
  publication_venue_i :: "string option"
  peer_reviewed_i :: bool
  language_i :: string
  reading_level_i :: "string option"
  external_ids_i :: "(string \<times> string) list"

definition DocumentMetadata_ingestion_init :: "property_bag \<Rightarrow> error + DocumentMetadata_ingestion" where
  "DocumentMetadata_ingestion_init bag =
     (case each_item normalize_author_names (or_default (bag_authors bag) []) of
        Inl e \<Rightarrow> Inl e
      | Inr normalized_authors \<Rightarrow>
          (let issues = validation_issues bag
           in if issues = [] then
                Inr \<lparr> title_i = or_default (bag_title bag) [],
                      authors_i = normalized_authors,
                      publication_date_i = bag_publication_date bag,
                      source_url_i = bag_source_url bag,
                      primary_topic_i = or_default (bag_primary_topic bag) [],
                      subtopics_i = or_default (bag_subtopics bag) [],
                      keywords_i = or_default (bag_keywords bag) [],
                      doc_type_i = or_default (bag_doc_type bag) [],
                      credibility_score_i = bag_credibility_score bag,
                      publication_venue_i = bag_publication_venue bag,
                      peer_reviewed_i = or_default (bag_peer_reviewed bag) False,
                      language_i = or_default (bag_language bag) ''en'',
                      reading_level_i = bag_reading_level bag,
                      external_ids_i = or_default (bag_external_ids bag) [] \<rparr>
              else Inl (ValidationError issues)))"

subsection \<open>The construction contract as the specification words it\<close>

definition missing_or_empty :: "string option \<Rightarrow> bool" where
  "missing_or_empty v = (case v of None \<Rightarrow> True | Some s \<Rightarrow> s = [])"

definition outside_unit_interval :: "rat option \<Rightarrow> bool" where
  "outside_unit_interval v = (case v of None \<Rightarrow> False | Some x \<Rightarrow> x < 0 \<or> 1 < x)"

definition construction_fails_spec :: "property_bag \<Rightarrow> bool" where
  "construction_fails_spec bag =
     (missing_or_empty (bag_title bag) \<or> missing_or_empty (bag_primary_topic bag)
      \<or> missing_or_empty (bag_doc_type bag) \<or> outside_unit_interval (bag_credibility_score bag))"

definition is_missing :: "'a option \<Rightarrow> bool" where
  "is_missing v = (case v of None \<Rightarrow> True | Some _ \<Rightarrow> False)"

definition construction_fails :: "property_bag \<Rightarrow> bool" where
  \<comment> \<open>as the specification words it, without the clause on empty text\<close>
  "construction_fails bag =
     (is_missing (bag_title bag) \<or> is_missing (bag_primary_topic bag)
      \<or> is_missing (bag_doc_type bag) \<or> outside_unit_interval (bag_credibility_score bag))"

definition empty_bag :: property_bag where
  "empty_bag =
     \<lparr> bag_title = None, bag_authors = None, bag_publication_date = None,
       bag_source_url = None, bag_primary_topic = None, bag_subtopics = None,
       bag_keywords = None, bag_doc_type = None, bag_credibility_score = None,
       bag_publication_venue = None, bag_peer_reviewed = None, bag_language = None,
       bag_reading_level = None, bag_estimated_read_time_minutes = None,
       bag_external_ids = None, bag_cited_works = None, bag_custom_tags = None,
       bag_content_warnings = None \<rparr>"


definition turing_paper :: property_bag where
  "turing_paper =
     empty_bag \<lparr> bag_title := Some ''On Computable Numbers'',
                 bag_authors := Some [''Turing, Alan''],
                 bag_primary_topic := Some ''AI'', bag_doc_type := Some ''paper'',
                 bag_credibility_score := Some 0.9 \<rparr>"

definition untitled_paper :: property_bag where
  "untitled_paper =
     empty_bag \<lparr> bag_title := Some [], bag_primary_topic := Some ''AI'',
                 bag_doc_type := Some ''paper'' \<rparr>"


section \<open>Canonical entity resolver\<close>

text \<open>
  The one pattern the resolver builds is \<^verbatim>\<open>\b\<close>, the escaped abbreviation, \<^verbatim>\<open>\b\<close>,
  with \<^verbatim>\<open>re.IGNORECASE\<close>. \<^verbatim>\<open>\b\<close> holds at a position where exactly one of the
  two neighbouring characters is a word character, the ends of the text counting as
  non-word; an escaped character matches the characters with the same lower case.
\<close>

definition word_boundary :: "string \<Rightarrow> nat \<Rightarrow> bool" where
  "word_boundary text i =
     ((0 < i \<and> i \<le> length text \<and> is_word_char (text ! (i - 1)))
      \<noteq> (i < length text \<and> is_word_char (text ! i)))"

definition match_at :: "string \<Rightarrow> string \<Rightarrow> nat \<Rightarrow> bool" where
  "match_at abbrev text i =
     (i + length abbrev \<le> length text
      \<and> word_boundary text i
      \<and> lower (take (length abbrev) (drop i text)) = lower abbrev
      \<and> word_boundary text (i + length abbrev))"

definition re_search_word :: "string \<Rightarrow> string \<Rightarrow> nat option" where
  \<comment> \<open>\<^verbatim>\<open>re.search\<close> with that pattern: the start of the leftmost match\<close>
  "re_search_word abbrev text = find (match_at abbrev text) [0..<Suc (length text)]"





text \<open>
  \<^verbatim>\<open>re.sub\<close> with \<^verbatim>\<open>count=1\<close>. A replacement without a backslash is inserted as
  it is. One with a backslash goes through the template compiler of the \<^verbatim>\<open>re\<close>
  module first, which is not part of this repository: it is the parameter
  \<open>template\<close>, giving \<^verbatim>\<open>re.error\<close> or a function of the matched text.
\<close>

type_synonym template_compiler = "string \<Rightarrow> error + (string \<Rightarrow> string)"

definition re_sub_word_first :: "template_compiler \<Rightarrow> string \<Rightarrow> string \<Rightarrow> string \<Rightarrow> error + string" where
  "re_sub_word_first template abbrev repl text =
     (if CHR 0x5C \<in> set repl then
        (case template repl of
           Inl e \<Rightarrow> Inl e
         | Inr expand \<Rightarrow>
             Inr (case re_search_word abbrev text of
                    None \<Rightarrow> text
                  | Some i \<Rightarrow> take i text @ expand (take (length abbrev) (drop i text))
                               @ drop (i + length abbrev) text))
      else
        Inr (case re_search_word abbrev text of
               None \<Rightarrow> text
             | Some i \<Rightarrow> take i text @ repl @ drop (i + length abbrev) text))"

definition expanded_form :: "string \<Rightarrow> string \<Rightarrow> string" where
  \<comment> \<open>\<^verbatim>\<open>f"{abbrev} ({full_term})"\<close>\<close>
  "expanded_form abbrev full_term = abbrev @ '' ('' @ full_term @ '')''"

fun enrich_text_with_canonical_terms ::
  "template_compiler \<Rightarrow> string \<Rightarrow> (string \<times> string) list \<Rightarrow> error + string" where
  "enrich_text_with_canonical_terms template enriched [] = Inr enriched"
| "enrich_text_with_canonical_terms template enriched ((abbrev, full_term) # rest) =
     (case re_sub_word_first template abbrev (expanded_form abbrev full_term) enriched of
        Inl e \<Rightarrow> Inl e
      | Inr enriched' \<Rightarrow> enrich_text_with_canonical_terms template enriched' rest)"

subsection \<open>Whole-word occurrence as the specification words it\<close>

definition whole_word_at :: "string \<Rightarrow> string \<Rightarrow> string \<Rightarrow> string \<Rightarrow> bool" where
  \<comment> \<open>\<open>text\<close> is \<open>pre\<close>, then the abbreviation in some casing as a word of its own, then \<open>post\<close>\<close>
  "whole_word_at abbrev pre mid post =
     (lower mid = lower abbrev
      \<and> (pre = [] \<or> \<not> is_word_char (last pre))
      \<and> (post = [] \<or> \<not> is_word_char (hd post)))"

definition occurs_as_whole_word :: "string \<Rightarrow> string \<Rightarrow> bool" where
  "occurs_as_whole_word abbrev text =
     (\<exists>pre mid post. text = pre @ mid @ post \<and> whole_word_at abbrev pre mid post)"

definition wordlike :: "string \<Rightarrow> bool" where
  \<comment> \<open>not empty, beginning and ending with a word character\<close>
  "wordlike abbrev = (abbrev \<noteq> [] \<and> is_word_char (hd abbrev) \<and> is_word_char (last abbrev))"

subsection \<open>Embedding, one pair at a time and as the specification words it\<close>

definition expand_first :: "string \<Rightarrow> string \<Rightarrow> string \<Rightarrow> string" where
  \<comment> \<open>what one pair does to the text when its replacement has no backslash\<close>
  "expand_first abbrev full_term s =
     (case re_search_word abbrev s of
        None \<Rightarrow> s
      | Some i \<Rightarrow> take i s @ expanded_form abbrev full_term @ drop (i + length abbrev) s)"

definition ascii_map :: "(string \<times> string) list \<Rightarrow> bool" where
  "ascii_map canonical_map =
     list_all (\<lambda>(abbrev, full_term). isascii abbrev \<and> isascii full_term) canonical_map"

definition backslash_free :: "(string \<times> string) list \<Rightarrow> bool" where
  "backslash_free canonical_map =
     list_all (\<lambda>(abbrev, full_term). CHR 0x5C \<notin> set abbrev \<and> CHR 0x5C \<notin> set full_term) canonical_map"

definition first_occurrences :: "string \<Rightarrow> (string \<times> string) list \<Rightarrow> (nat \<times> string \<times> string) list" where
  \<comment> \<open>for each pair with a match, where its first match starts in \<open>text\<close>\<close>
  "first_occurrences text canonical_map =
     List.map_filter
       (\<lambda>(abbrev, full_term). map_option (\<lambda>i. (i, abbrev, full_term)) (re_search_word abbrev text))
       canonical_map"

definition embed_spec :: "string \<Rightarrow> (string \<times> string) list \<Rightarrow> string" where
  \<comment> \<open>every pair expands its first occurrence in the text that was given; the
     replacements are made from the right, so that the positions stay valid\<close>
  "embed_spec text canonical_map =
     foldr (\<lambda>(i, abbrev, full_term) s.
              take i s @ expanded_form abbrev full_term @ drop (i + length abbrev) s)
       (sort_key fst (first_occurrences text canonical_map)) text"

definition no_template :: template_compiler where
  \<comment> \<open>a template compiler that rejects everything, for inputs that never reach it\<close>
  "no_template repl = Inl ReError"


section \<open>Extraction-instruction string\<close>

definition arrow :: string where
  \<comment> \<open>U+2192, written as its three UTF-8 bytes\<close>
  "arrow = [CHR 0xE2, CHR 0x86, CHR 0x92]"

definition base_prompt :: string where
  \<open>base_prompt =
        ''\<newline>''
      @ ''You are extracting entities for a technical knowledge base.\<newline>''
      @ ''\<newline>''
      @ ''**Use canonical entity names (REQUIRED):**\<newline>''\<close>

definition canonical_mappings :: "(string \<times> string) list" where
  \<open>canonical_mappings =
     [(''AI'',
        ''\<newline>''
      @ ''- "Generative Pre-trained Transformer" NOT "GPT"\<newline>''
      @ ''- "Large Language Model" NOT "LLM"\<newline>''
      @ ''- "Natural Language Processing" NOT "NLP"\<newline>''
      @ ''- "Transformer Architecture" NOT "transformers"\<newline>''
      @ ''- "Convolutional Neural Network" NOT "CNN"\<newline>''
      @ ''- "Reinforcement Learning" NOT "RL"\<newline>''),
      (''quantum_computing'',
        ''\<newline>''
      @ ''- "Quantum Computing" NOT "QC"\<newline>''
      @ ''- "Quantum Key Distribution" NOT "QKD"\<newline>''
      @ ''- "Variational Quantum Eigensolver" NOT "VQE"\<newline>''
      @ ''- "Quantum Processing Unit" NOT "QPU"\<newline>''),
      (''biology'',
        ''\<newline>''
      @ ''- "Deoxyribonucleic Acid" NOT "DNA"\<newline>''
      @ ''- "Ribonucleic Acid" NOT "RNA"\<newline>''
      @ ''- "Clustered Regularly Interspaced Short Palindromic Repeats" NOT "CRISPR"\<newline>''
      @ ''- "Polymerase Chain Reaction" NOT "PCR"\<newline>'')]\<close>

definition entity_types :: string where
  \<open>entity_types =
        ''\<newline>''
      @ ''**Extract these entity types:**\<newline>''
      @ ''- **Concept**: Technical concepts, theories, algorithms\<newline>''
      @ ''- **Person**: Researchers, authors, experts (use full names)\<newline>''
      @ ''- **Organization**: Research labs, companies, universities\<newline>''
      @ ''- **Technology**: Tools, frameworks, systems\<newline>''
      @ ''- **Method**: Techniques, methodologies, approaches\<newline>''
      @ ''- **Paper**: Academic papers (extract title + year if available)\<newline>''\<close>

definition relationships :: string where
  \<open>relationships =
        ''\<newline>''
      @ ''**Relationship types:**\<newline>''
      @ ''- is_subfield_of: Subtopic '' @ arrow @ '' main topic\<newline>''
      @ ''- builds_on: New concept '' @ arrow @ '' foundational concept\<newline>''
      @ ''- developed_by: Technology '' @ arrow @ '' creator\<newline>''
      @ ''- published_in: Paper '' @ arrow @ '' venue\<newline>''
      @ ''- applied_to: Method '' @ arrow @ '' application domain\<newline>''
      @ ''- related_to: General conceptual connections\<newline>''\<close>

definition consistency :: string where
  \<open>consistency =
        ''\<newline>''
      @ ''**Consistency requirements:**\<newline>''
      @ ''- Always use full canonical names on first mention\<newline>''
      @ ''- Link abbreviations to canonical forms\<newline>''
      @ ''- Maintain consistent entity IDs across chunks\<newline>''
      @ ''- Use snake_case for relationship names (e.g., is_subfield_of)\<newline>''\<close>

definition get_custom_prompt :: "string \<Rightarrow> string" where
  "get_custom_prompt topic =
     base_prompt @ dict_get canonical_mappings topic [] @ entity_types @ relationships @ consistency"


section \<open>Properties of the scorer\<close>

lemma dict_get_TYPE_SCORES: "dict_get TYPE_SCORES doc_type 0.1 = base_score_spec doc_type"
  by (simp add: dict_get_def TYPE_SCORES_def base_score_spec_def)

lemma base_score_spec_bounds: "1/10 \<le> base_score_spec t \<and> base_score_spec t \<le> 2/5"
  by (simp add: base_score_spec_def)

lemma str_contains_Nil [simp]: "str_contains [] s"
  by (cases s) simp_all

lemma venue_step:
  "(case pv of None \<Rightarrow> (s::rat)
    | Some v \<Rightarrow> if v \<noteq> [] \<and> list_ex (\<lambda>p. str_contains p (lower v)) ps then s + 0.2 else s)
   = s + (if [] \<in> set ps \<and> pv = Some [] then 0 else venue_bonus_spec ps pv)"
  by (cases pv) (auto simp: venue_bonus_spec_def list_ex_iff lower_def)

lemma PRESTIGIOUS_VENUES_nonempty: "[] \<notin> set PRESTIGIOUS_VENUES"
  by (simp add: PRESTIGIOUS_VENUES_def)

lemma PRESTIGIOUS_nonempty: "[] \<notin> set PRESTIGIOUS"
  by (simp add: PRESTIGIOUS_def)

lemma set_PRESTIGIOUS_VENUES: "set PRESTIGIOUS_VENUES = set prestige_list_spec"
  by (auto simp: PRESTIGIOUS_VENUES_def prestige_list_spec_def)

lemma venue_bonus_spec_set:
  "set ps = set qs \<Longrightarrow> venue_bonus_spec ps pv = venue_bonus_spec qs pv"
  by (simp add: venue_bonus_spec_def list_ex_iff split: option.splits)

lemma venue_bonus_spec_bounds: "0 \<le> venue_bonus_spec ps pv \<and> venue_bonus_spec ps pv \<le> 1/5"
  by (simp add: venue_bonus_spec_def split: option.splits)

lemma years_lt_2: "(of_int n / 365 < (2::rat)) = (n < 730)"
proof -
  have "(of_int n / 365 < (2::rat)) = ((of_int n :: rat) < of_int 730)"
    by (simp add: divide_less_eq)
  then show ?thesis by (simp only: of_int_less_iff)
qed

lemma years_gt_10: "(of_int n / 365 > (10::rat)) = (3650 < n)"
proof -
  have "(of_int n / 365 > (10::rat)) = ((of_int 3650 :: rat) < of_int n)"
    by (simp add: less_divide_eq)
  then show ?thesis by (simp only: of_int_less_iff)
qed

lemma recency_step:
  "(case pd of None \<Rightarrow> (s::rat)
    | Some d \<Rightarrow> let years_old = (of_int (timedelta_days (now - d)) / 365 :: rat)
                in if years_old < 2 then s + 0.1 else if years_old > 10 then s - 0.05 else s)
   = s + recency_whole_days now pd"
  by (cases pd) (simp_all add: recency_whole_days_def Let_def years_lt_2 years_gt_10)

lemma recency_step_ingestion:
  "(case pd of None \<Rightarrow> (s::rat)
    | Some d \<Rightarrow> let years_old = (of_int (timedelta_days (now - d)) / 365 :: rat)
                in if years_old < 2 then s + 0.1 else s)
   = s + recency_bonus_only now pd"
  by (cases pd) (simp_all add: recency_bonus_only_def Let_def years_lt_2)

lemma calculate_credibility_score_sum:
  "calculate_credibility_score now doc_type publication_venue peer_reviewed publication_date authors =
     min (base_score_spec doc_type + peer_bonus_spec peer_reviewed
          + venue_bonus_spec prestige_list_spec publication_venue
          + recency_whole_days now publication_date
          + authors_bonus_spec authors) 1"
proof -
  have v: "venue_bonus_spec PRESTIGIOUS_VENUES publication_venue
             = venue_bonus_spec prestige_list_spec publication_venue"
    by (rule venue_bonus_spec_set) (rule set_PRESTIGIOUS_VENUES)
  show ?thesis
    unfolding calculate_credibility_score_def Let_def
    unfolding venue_step recency_step [unfolded Let_def] dict_get_TYPE_SCORES
    by (simp add: PRESTIGIOUS_VENUES_nonempty v peer_bonus_spec_def authors_bonus_spec_def)
qed

lemma calculate_credibility_score_ingestion_sum:
  "calculate_credibility_score_ingestion now doc_type peer_reviewed publication_venue publication_date authors =
     min (base_score_spec doc_type + peer_bonus_spec peer_reviewed
          + venue_bonus_spec PRESTIGIOUS publication_venue
          + recency_bonus_only now publication_date
          + authors_bonus_spec authors) 1"
  unfolding calculate_credibility_score_ingestion_def Let_def
  unfolding venue_step recency_step_ingestion [unfolded Let_def] dict_get_TYPE_SCORES
  by (simp add: PRESTIGIOUS_nonempty peer_bonus_spec_def authors_bonus_spec_def)

lemma score_floor:
  assumes "- 1/20 \<le> r"
  shows "1/20 \<le> min (base_score_spec t + peer_bonus_spec p + venue_bonus_spec ps v + r
                       + authors_bonus_spec a) (1::rat)"
  using base_score_spec_bounds [of t] venue_bonus_spec_bounds [of ps v] assms
  by (simp add: peer_bonus_spec_def authors_bonus_spec_def min_def)

lemma recency_whole_days_ge: "- 1/20 \<le> recency_whole_days now pd"
  by (simp add: recency_whole_days_def split: option.splits)

lemma recency_bonus_only_ge: "- 1/20 \<le> recency_bonus_only now pd"
  by (simp add: recency_bonus_only_def split: option.splits)

lemma calculate_credibility_score_ge:
  "1/20 \<le> calculate_credibility_score now doc_type publication_venue peer_reviewed publication_date authors"
  unfolding calculate_credibility_score_sum by (rule score_floor) (rule recency_whole_days_ge)

lemma calculate_credibility_score_ingestion_ge:
  "1/20 \<le> calculate_credibility_score_ingestion now doc_type peer_reviewed publication_venue publication_date authors"
  unfolding calculate_credibility_score_ingestion_sum
  by (rule score_floor) (rule recency_bonus_only_ge)

lemmas scorer_defs =
  calculate_credibility_score_def calculate_credibility_score_ingestion_def Let_def
  dict_get_def TYPE_SCORES_def PRESTIGIOUS_VENUES_def PRESTIGIOUS_def
  lower_def lower_char_def ascii_uppercase_def ascii_lowercase_def
  timedelta_days_def usec_per_day_def

lemmas scorer_spec_defs =
  credibility_spec_def base_score_spec_def peer_bonus_spec_def venue_bonus_spec_def
  prestige_list_spec_def recency_spec_def age_years_spec_def authors_bonus_spec_def
  recency_whole_days_def recency_bonus_only_def

text \<open>
  The deduction for old documents starts one whole day later than the age of the
  specification says: 3650 days and one microsecond after publication the age is above
  ten years, \<^verbatim>\<open>timedelta.days\<close> is still 3650, and the code deducts nothing.
\<close>

lemma whole_days_against_age:
  "calculate_credibility_score (3650 * usec_per_day + 1) ''paper'' None False (Some 0) [] = 2/5
   \<and> credibility_spec ''paper'' False None (Some 0) [] (3650 * usec_per_day + 1) = 7/20"
  by (simp add: scorer_defs scorer_spec_defs)

text \<open>
  Claim C1, as stated: both scorers equal the additive formula of the specification, with
  the thirteen-venue prestige list and the deduction for documents older than ten years.
  The scorer of \<^verbatim>\<open>example_multi_user_ingestion.py\<close> does not: for a paper published
  in "IEEE Access", nothing else known, it returns 0.4 where the formula gives 0.6.
\<close>

theorem credibility_formula_counterexample:
  "calculate_credibility_score_ingestion 0 ''paper'' False (Some ''IEEE Access'') None [] = 2/5
   \<and> credibility_spec ''paper'' False (Some ''IEEE Access'') None [] 0 = 3/5"
  by (simp add: scorer_defs scorer_spec_defs)

text \<open>
  Claim C1, amended: the scorer of \<^verbatim>\<open>preprocessing_recommendation.py\<close> is the capped
  sum of the base score of the table, 0.30 for peer review, 0.20 for a venue containing
  a member of the thirteen-venue list, the recency adjustment on whole elapsed days
  (+0.10 below 730 days, -0.05 above 3650 days, nothing without a date) and 0.05 for
  three authors or more; the scorer of \<^verbatim>\<open>example_multi_user_ingestion.py\<close> is the same
  sum with the five venues nature, science, neurips, icml, iclr and without the deduction.
\<close>

theorem credibility_formula_amended:
  "calculate_credibility_score now doc_type publication_venue peer_reviewed publication_date authors =
     min (base_score_spec doc_type + peer_bonus_spec peer_reviewed
          + venue_bonus_spec prestige_list_spec publication_venue
          + recency_whole_days now publication_date
          + authors_bonus_spec authors) 1
   \<and> calculate_credibility_score_ingestion now doc_type peer_reviewed publication_venue publication_date authors =
     min (base_score_spec doc_type + peer_bonus_spec peer_reviewed
          + venue_bonus_spec [''nature'', ''science'', ''neurips'', ''icml'', ''iclr''] publication_venue
          + recency_bonus_only now publication_date
          + authors_bonus_spec authors) 1"
  using calculate_credibility_score_sum calculate_credibility_score_ingestion_sum
  by (simp add: PRESTIGIOUS_def)

theorem credibility_formula_amended_witness:
  "calculate_credibility_score (20000 * usec_per_day) ''paper'' (Some ''NeurIPS 2024'') True
     (Some (19800 * usec_per_day)) [''a'', ''b'', ''c''] = 1
   \<and> calculate_credibility_score_ingestion (20000 * usec_per_day) ''blog_post'' False None None [''x'']
     = 3/20"
  using credibility_formula_amended [of "20000 * usec_per_day" "''paper''" "Some ''NeurIPS 2024''"
      True "Some (19800 * usec_per_day)" "[''a'', ''b'', ''c'']"]
    credibility_formula_amended [of "20000 * usec_per_day" "''blog_post''" None False None "[''x'']"]
  by (simp add: scorer_spec_defs scorer_defs)

text \<open>
  Claim C2: for every document type, peer-review flag, optional venue, optional
  publication date, author list and clock reading, the score that either scorer returns
  lies in the closed interval from 0 to 1.
\<close>

theorem credibility_score_in_unit_interval:
  "0 \<le> calculate_credibility_score now doc_type publication_venue peer_reviewed publication_date authors
   \<and> calculate_credibility_score now doc_type publication_venue peer_reviewed publication_date authors \<le> 1
   \<and> 0 \<le> calculate_credibility_score_ingestion now doc_type peer_reviewed publication_venue publication_date authors
   \<and> calculate_credibility_score_ingestion now doc_type peer_reviewed publication_venue publication_date authors \<le> 1"
proof -
  have "calculate_credibility_score now doc_type publication_venue peer_reviewed publication_date authors \<le> 1"
    unfolding calculate_credibility_score_sum by simp
  moreover have "calculate_credibility_score_ingestion now doc_type peer_reviewed publication_venue publication_date authors \<le> 1"
    unfolding calculate_credibility_score_ingestion_sum by simp
  ultimately show ?thesis
    using calculate_credibility_score_ge [of now doc_type publication_venue peer_reviewed publication_date authors]
      calculate_credibility_score_ingestion_ge [of now doc_type peer_reviewed publication_venue publication_date authors]
    by simp
qed

theorem credibility_score_in_unit_interval_witness:
  "0 \<le> calculate_credibility_score (20000 * usec_per_day) ''interview'' (Some ''Nature'') True
          (Some (10000 * usec_per_day)) []
   \<and> calculate_credibility_score (20000 * usec_per_day) ''interview'' (Some ''Nature'') True
          (Some (10000 * usec_per_day)) [] \<le> 1
   \<and> 0 \<le> calculate_credibility_score_ingestion (20000 * usec_per_day) ''interview'' True (Some ''Nature'')
          (Some (10000 * usec_per_day)) []
   \<and> calculate_credibility_score_ingestion (20000 * usec_per_day) ''interview'' True (Some ''Nature'')
          (Some (10000 * usec_per_day)) [] \<le> 1"
  by (rule credibility_score_in_unit_interval)

text \<open>
  Claim C3, as stated: the reference time is an explicit parameter, so two calls with
  identical arguments return identical results. Neither scorer has such a parameter;
  both read \<^verbatim>\<open>datetime.now()\<close>. The same five arguments, a paper published at the
  epoch and nothing else known, score 0.5 when the clock reads one day after the epoch
  and 0.35 when it reads 4000 days after it.
\<close>

theorem credibility_score_clock_counterexample:
  "calculate_credibility_score usec_per_day ''paper'' None False (Some 0) [] = 1/2
   \<and> calculate_credibility_score (4000 * usec_per_day) ''paper'' None False (Some 0) [] = 7/20"
  by (simp add: scorer_defs)

text \<open>
  Claim C3, amended: the scorers read the system clock themselves; the score is a function
  of the five arguments and of that reading, and depends on the reading only through the
  number of whole days since the publication date. Two calls with identical arguments
  return identical results whenever the document has no publication date or the two
  clock readings lie the same number of whole days after it.
\<close>

theorem credibility_score_clock:
  assumes "case publication_date of
             None \<Rightarrow> True
           | Some d \<Rightarrow> timedelta_days (now1 - d) = timedelta_days (now2 - d)"
  shows "calculate_credibility_score now1 doc_type publication_venue peer_reviewed publication_date authors
           = calculate_credibility_score now2 doc_type publication_venue peer_reviewed publication_date authors
         \<and> calculate_credibility_score_ingestion now1 doc_type peer_reviewed publication_venue publication_date authors
           = calculate_credibility_score_ingestion now2 doc_type peer_reviewed publication_venue publication_date authors"
proof -
  have "recency_whole_days now1 publication_date = recency_whole_days now2 publication_date"
    using assms by (cases publication_date) (simp_all add: recency_whole_days_def)
  moreover have "recency_bonus_only now1 publication_date = recency_bonus_only now2 publication_date"
    using assms by (cases publication_date) (simp_all add: recency_bonus_only_def)
  ultimately show ?thesis
    by (simp add: calculate_credibility_score_sum calculate_credibility_score_ingestion_sum)
qed

theorem credibility_score_clock_witness:
  "timedelta_days (100 * usec_per_day + 50 - 7) = timedelta_days (100 * usec_per_day + 90 - 7)
   \<and> calculate_credibility_score (100 * usec_per_day + 50) ''book'' None False (Some 7) []
       = calculate_credibility_score (100 * usec_per_day + 90) ''book'' None False (Some 7) []
   \<and> calculate_credibility_score_ingestion (100 * usec_per_day + 50) ''book'' False None (Some 7) []
       = calculate_credibility_score_ingestion (100 * usec_per_day + 90) ''book'' False None (Some 7) []"
proof -
  have h: "timedelta_days (100 * usec_per_day + 50 - 7) = timedelta_days (100 * usec_per_day + 90 - 7)"
    by (simp add: timedelta_days_def usec_per_day_def)
  then have "case Some (7::int) of None \<Rightarrow> True
             | Some d \<Rightarrow> timedelta_days (100 * usec_per_day + 50 - d) = timedelta_days (100 * usec_per_day + 90 - d)"
    by simp
  from credibility_score_clock [OF this, of "''book''" None False "[]"] h
  show ?thesis by simp
qed

text \<open>
  Claim C10: with the constants as shipped, every score is at least 0.05: the smallest
  base score is 0.10 and the one deduction is 0.05. This holds for both scorers.
\<close>

theorem credibility_score_at_least_one_twentieth:
  "1/20 \<le> calculate_credibility_score now doc_type publication_venue peer_reviewed publication_date authors
   \<and> 1/20 \<le> calculate_credibility_score_ingestion now doc_type peer_reviewed publication_venue publication_date authors"
  using calculate_credibility_score_ge calculate_credibility_score_ingestion_ge by simp

theorem credibility_score_at_least_one_twentieth_witness:
  "1/20 \<le> calculate_credibility_score (4000 * usec_per_day) ''memo'' None False (Some 0) []
   \<and> calculate_credibility_score (4000 * usec_per_day) ''memo'' None False (Some 0) [] = 1/20
   \<and> 1/20 \<le> calculate_credibility_score_ingestion (4000 * usec_per_day) ''memo'' False None (Some 0) []"
  using credibility_score_at_least_one_twentieth [of "4000 * usec_per_day" "''memo''" None False "Some 0" "[]"]
  by (simp add: scorer_defs)


section \<open>Properties of the normalizer\<close>

lemma split_on_unfold:
  "split_on sep s =
     takeWhile (\<lambda>c. c \<noteq> sep) s
       # (case dropWhile (\<lambda>c. c \<noteq> sep) s of [] \<Rightarrow> [] | _ # r \<Rightarrow> split_on sep r)"
  by (induction s) (auto split: list.splits)

lemma split_on_two:
  assumes "sep \<in> set s"
  shows "\<exists>rest. split_on sep s =
           takeWhile (\<lambda>c. c \<noteq> sep) s
             # takeWhile (\<lambda>c. c \<noteq> sep) (tl (dropWhile (\<lambda>c. c \<noteq> sep) s)) # rest"
proof -
  from assms have "dropWhile (\<lambda>c. c \<noteq> sep) s \<noteq> []" by simp
  then obtain x r where d: "dropWhile (\<lambda>c. c \<noteq> sep) s = x # r"
    by (cases "dropWhile (\<lambda>c. c \<noteq> sep) s") auto
  have "split_on sep s = takeWhile (\<lambda>c. c \<noteq> sep) s # split_on sep r"
    by (subst split_on_unfold) (simp add: d)
  moreover have "\<exists>rest. split_on sep r = takeWhile (\<lambda>c. c \<noteq> sep) r # rest"
    by (subst split_on_unfold) simp
  ultimately show ?thesis by (auto simp: d)
qed

lemma normalize_author_names_comma:
  assumes "CHR '','' \<in> set author"
  shows "normalize_author_names author = Inr (strip (second_part author) @ '' '' @ strip (first_part author))"
proof -
  from split_on_two [OF assms] obtain rest where
    "split_on (CHR '','') author = first_part author # second_part author # rest"
    by (auto simp: first_part_def second_part_def)
  with assms show ?thesis by (simp add: normalize_author_names_def)
qed

lemma normalize_author_names_total: "\<exists>name. normalize_author_names author = Inr name"
  by (cases "CHR '','' \<in> set author") (simp_all add: normalize_author_names_comma, simp add: normalize_author_names_def)

lemma split_first_eq:
  "sep \<in> set s \<Longrightarrow>
     split_first sep s = (takeWhile (\<lambda>c. c \<noteq> sep) s, tl (dropWhile (\<lambda>c. c \<noteq> sep) s))"
  by (induction s) (auto split: prod.splits)

lemma count_list_dropWhile:
  "sep \<in> set s \<Longrightarrow> count_list s sep = Suc (count_list (tl (dropWhile (\<lambda>c. c \<noteq> sep) s)) sep)"
  by (induction s) auto

lemma takeWhile_no_sep: "count_list s sep = 0 \<Longrightarrow> takeWhile (\<lambda>c. c \<noteq> sep) s = s"
  by (induction s) (auto split: if_splits)

lemma normalize_author_one_comma:
  assumes "count_list author (CHR '','') = 1"
  shows "normalize_author_names author = Inr (normalize_author_spec author)"
proof -
  from assms have m: "CHR '','' \<in> set author"
    by (metis count_list_0_iff zero_neq_one)
  with assms count_list_dropWhile [OF m]
  have "count_list (tl (dropWhile (\<lambda>c. c \<noteq> CHR '','') author)) (CHR '','') = 0" by simp
  then have "second_part author = tl (dropWhile (\<lambda>c. c \<noteq> CHR '','') author)"
    unfolding second_part_def by (rule takeWhile_no_sep)
  with m show ?thesis
    by (simp add: normalize_author_names_comma normalize_author_spec_def split_first_eq first_part_def)
qed

lemma each_item_total:
  assumes "\<And>x. \<exists>y. f x = Inr y"
  shows "\<exists>ys. each_item f xs = Inr ys \<and> length ys = length xs \<and> (\<forall>i<length xs. f (xs ! i) = Inr (ys ! i))"
proof (induction xs)
  case Nil
  then show ?case by simp
next
  case (Cons x xs)
  from assms obtain y where y: "f x = Inr y" by blast
  from Cons obtain ys where ys: "each_item f xs = Inr ys" "length ys = length xs"
    "\<forall>i<length xs. f (xs ! i) = Inr (ys ! i)" by blast
  have "\<forall>i<length (x # xs). f ((x # xs) ! i) = Inr ((y # ys) ! i)"
    using y ys(3) by (auto simp: nth_Cons split: nat.splits)
  with y ys show ?case by simp
qed

lemma str_replace_char:
  "str_replace [a] [b] s = map (\<lambda>c. if c = a then b else c) s"
  by (induction s) auto

lemma authors_normalized:
  "\<exists>ys. each_item normalize_author_names xs = Inr ys \<and> length ys = length xs
        \<and> (\<forall>i<length xs. normalize_author_names (xs ! i) = Inr (ys ! i))"
  by (rule each_item_total) (rule normalize_author_names_total)

lemmas text_defs =
  lower_def lower_char_def ascii_uppercase_def ascii_lowercase_def digits_def
  isspace_def is_word_char_def strip_def

text \<open>
  Claim C5, as stated: a name with a comma is split on the first comma, and the two
  trimmed parts are swapped. The code splits on every comma and uses the first two parts
  only: of "King, Martin Luther, Jr." it keeps "Martin Luther King", where splitting on
  the first comma gives "Martin Luther, Jr. King".
\<close>

theorem normalize_author_names_counterexample:
  "normalize_author_names ''King, Martin Luther, Jr.'' = Inr ''Martin Luther King''
   \<and> normalize_author_spec ''King, Martin Luther, Jr.'' = ''Martin Luther, Jr. King''"
  by (simp add: normalize_author_names_def normalize_author_spec_def text_defs)

text \<open>
  Claim C5, amended, for names of ASCII characters: a name without a comma is returned
  unchanged. A name with a comma is split on every comma; the result is the trimmed text
  between the first and the second comma (or the end), one space, and the trimmed text
  before the first comma; whatever follows a second comma is dropped. With exactly one
  comma this is the rewriting of "Last, First" to "First Last" on the first comma. The
  validator never raises, and applied to every element of the author list it keeps
  length and order.
\<close>

theorem normalize_author_names_amended:
  "(isascii author \<and> CHR '','' \<notin> set author \<longrightarrow> normalize_author_names author = Inr author)
   \<and> (isascii author \<and> CHR '','' \<in> set author \<longrightarrow>
        normalize_author_names author
          = Inr (strip (second_part author) @ '' '' @ strip (first_part author)))
   \<and> (isascii author \<and> count_list author (CHR '','') = 1 \<longrightarrow>
        normalize_author_names author = Inr (normalize_author_spec author))
   \<and> (list_all isascii authors \<longrightarrow>
        (\<exists>ys. each_item normalize_author_names authors = Inr ys
           \<and> length ys = length authors
           \<and> (\<forall>i<length authors. normalize_author_names (authors ! i) = Inr (ys ! i))))"
  using normalize_author_names_comma [of author] normalize_author_one_comma [of author]
    authors_normalized [of authors]
  by (simp add: normalize_author_names_def)

theorem normalize_author_names_amended_witness:
  "isascii ''Ada Lovelace'' \<and> isascii ''Turing, Alan''
   \<and> list_all isascii [''Turing, Alan'', ''Ada Lovelace'']
   \<and> CHR '','' \<notin> set ''Ada Lovelace''
   \<and> normalize_author_names ''Ada Lovelace'' = Inr ''Ada Lovelace''
   \<and> CHR '','' \<in> set ''Turing, Alan''
   \<and> count_list ''Turing, Alan'' (CHR '','') = 1
   \<and> normalize_author_names ''Turing, Alan'' = Inr ''Alan Turing''
   \<and> normalize_author_spec ''Turing, Alan'' = ''Alan Turing''
   \<and> each_item normalize_author_names [''Turing, Alan'', ''Ada Lovelace'']
       = Inr [''Alan Turing'', ''Ada Lovelace'']"
  using normalize_author_names_amended [of "''Ada Lovelace''" "[''Turing, Alan'', ''Ada Lovelace'']"]
    normalize_author_names_amended [of "''Turing, Alan''" "[''Turing, Alan'', ''Ada Lovelace'']"]
  by (simp add: normalize_author_names_def normalize_author_spec_def first_part_def
      second_part_def text_defs isascii_def)

text \<open>
  Claim C6, as stated: every run of white space becomes a single underscore. The code
  replaces each space character by itself: "Deep  Learning", with two spaces, becomes
  "deep__learning" and not "deep_learning".
\<close>

theorem lowercase_and_normalize_counterexample:
  "lowercase_and_normalize [''Deep  Learning''] = [''deep__learning'']
   \<and> map normalize_token_spec [''Deep  Learning''] = [''deep_learning'']"
  by (simp add: lowercase_and_normalize_def normalize_token_spec_def text_defs)

text \<open>
  Claim C6, amended, for tokens of ASCII characters: every element is lower-cased and
  then each space character (U+0020) is replaced by one underscore, so that a run of n
  spaces gives n underscores and tabs and line breaks stay; the result has the length
  and the order of the input, duplicates kept, and "Large Language Model" becomes
  "large_language_model".
\<close>

theorem lowercase_and_normalize_amended:
  "(list_all isascii values \<longrightarrow>
      lowercase_and_normalize values = map (\<lambda>v. map space_to_underscore (lower v)) values
      \<and> (\<forall>i<length values.
            lowercase_and_normalize values ! i = map space_to_underscore (lower (values ! i))))
   \<and> length (lowercase_and_normalize values) = length values
   \<and> lowercase_and_normalize [''Large Language Model''] = [''large_language_model'']"
proof -
  have "space_to_underscore = (\<lambda>c. if c = CHR '' '' then CHR ''_'' else c)"
    by (rule ext) (simp add: space_to_underscore_def)
  then have "lowercase_and_normalize vs = map (\<lambda>v. map space_to_underscore (lower v)) vs" for vs
    by (simp add: lowercase_and_normalize_def str_replace_char)
  then show ?thesis
    by (simp add: space_to_underscore_def text_defs)
qed

theorem lowercase_and_normalize_amended_witness:
  "list_all isascii [''Large Language Model'', ''NLP'', ''NLP'', [CHR ''A'', CHR 0x09, CHR ''b'']]
   \<and> lowercase_and_normalize [''Large Language Model'', ''NLP'', ''NLP'', [CHR ''A'', CHR 0x09, CHR ''b'']]
     = [''large_language_model'', ''nlp'', ''nlp'', [CHR ''a'', CHR 0x09, CHR ''b'']]"
  using lowercase_and_normalize_amended
    [of "[''Large Language Model'', ''NLP'', ''NLP'', [CHR ''A'', CHR 0x09, CHR ''b'']]"]
  by (simp add: space_to_underscore_def text_defs isascii_def)


section \<open>Properties of the metadata model\<close>

lemma validation_issues_Nil: "(validation_issues bag = []) = (\<not> construction_fails bag)"
  by (auto simp: validation_issues_def construction_fails_def required_def ge_le_def is_missing_def
      outside_unit_interval_def split: option.splits)

lemma normalize_author_names_eq: "normalize_author_names author = Inr (author_first_last author)"
  by (simp add: author_first_last_def normalize_author_names_comma)
    (simp add: normalize_author_names_def)

lemma each_item_map:
  assumes "\<And>x. f x = Inr (g x)"
  shows "each_item f xs = Inr (map g xs)"
  by (induction xs) (simp_all add: assms)

lemma authors_first_last:
  "each_item normalize_author_names xs = Inr (map author_first_last xs)"
  by (rule each_item_map) (rule normalize_author_names_eq)

lemma required_fields_given:
  assumes "\<not> construction_fails bag"
  shows "or_default (bag_title bag) [] = the (bag_title bag)
         \<and> or_default (bag_primary_topic bag) [] = the (bag_primary_topic bag)
         \<and> or_default (bag_doc_type bag) [] = the (bag_doc_type bag)"
  using assms
  by (auto simp: construction_fails_def is_missing_def or_default_def split: option.splits)

lemma DocumentMetadata_ingestion_init_fails:
  "construction_fails bag \<Longrightarrow>
     DocumentMetadata_ingestion_init bag = Inl (ValidationError (validation_issues bag))"
  by (simp add: DocumentMetadata_ingestion_init_def authors_first_last validation_issues_Nil)

lemma DocumentMetadata_ingestion_init_succeeds:
  assumes "\<not> construction_fails bag"
  shows "DocumentMetadata_ingestion_init bag =
     Inr \<lparr> title_i = the (bag_title bag),
          authors_i = map author_first_last (or_default (bag_authors bag) []),
          publication_date_i = bag_publication_date bag,
          source_url_i = bag_source_url bag,
          primary_topic_i = the (bag_primary_topic bag),
          subtopics_i = or_default (bag_subtopics bag) [],
          keywords_i = or_default (bag_keywords bag) [],
          doc_type_i = the (bag_doc_type bag),
          credibility_score_i = bag_credibility_score bag,
          publication_venue_i = bag_publication_venue bag,
          peer_reviewed_i = or_default (bag_peer_reviewed bag) False,
          language_i = or_default (bag_language bag) ''en'',
          reading_level_i = bag_reading_level bag,
          external_ids_i = or_default (bag_external_ids bag) [] \<rparr>"
  using assms required_fields_given [OF assms]
  by (simp add: DocumentMetadata_ingestion_init_def authors_first_last validation_issues_Nil)

lemma DocumentMetadata_init_TypeError:
  assumes "bag_subtopics bag \<noteq> None \<or> bag_keywords bag \<noteq> None"
  shows "DocumentMetadata_init bag = Inl TypeError"
  using assms
  by (auto simp: DocumentMetadata_init_def authors_first_last validated_tokens_def
      called_with_values_def split: option.splits)

lemma DocumentMetadata_init_fails:
  assumes "bag_subtopics bag = None" "bag_keywords bag = None" "construction_fails bag"
  shows "DocumentMetadata_init bag = Inl (ValidationError (validation_issues bag))"
  using assms
  by (simp add: DocumentMetadata_init_def authors_first_last validated_tokens_def
      validation_issues_Nil)

lemma DocumentMetadata_init_succeeds:
  assumes "bag_subtopics bag = None" "bag_keywords bag = None" "\<not> construction_fails bag"
  shows "DocumentMetadata_init bag =
     Inr \<lparr> title_md = the (bag_title bag),
          authors_md = map author_first_last (or_default (bag_authors bag) []),
          publication_date_md = bag_publication_date bag,
          source_url_md = bag_source_url bag,
          primary_topic_md = the (bag_primary_topic bag),
          subtopics_md = [],
          keywords_md = [],
          doc_type_md = the (bag_doc_type bag),
          credibility_score_md = bag_credibility_score bag,
          publication_venue_md = bag_publication_venue bag,
          peer_reviewed_md = or_default (bag_peer_reviewed bag) False,
          language_md = or_default (bag_language bag) ''en'',
          reading_level_md = bag_reading_level bag,
          estimated_read_time_minutes_md = bag_estimated_read_time_minutes bag,
          external_ids_md = or_default (bag_external_ids bag) [],
          cited_works_md = or_default (bag_cited_works bag) [],
          custom_tags_md = or_default (bag_custom_tags bag) [],
          content_warnings_md = or_default (bag_content_warnings bag) [] \<rparr>"
  using assms required_fields_given [OF assms(3)]
  by (simp add: DocumentMetadata_init_def authors_first_last validated_tokens_def
      validation_issues_Nil)

lemma DocumentMetadata_fieldwise:
  "(((r1::DocumentMetadata) = r2) =
        (title_md r1 = title_md r2 \<and> authors_md r1 = authors_md r2
         \<and> publication_date_md r1 = publication_date_md r2 \<and> source_url_md r1 = source_url_md r2
         \<and> primary_topic_md r1 = primary_topic_md r2 \<and> subtopics_md r1 = subtopics_md r2
         \<and> keywords_md r1 = keywords_md r2 \<and> doc_type_md r1 = doc_type_md r2
         \<and> credibility_score_md r1 = credibility_score_md r2
         \<and> publication_venue_md r1 = publication_venue_md r2
         \<and> peer_reviewed_md r1 = peer_reviewed_md r2 \<and> language_md r1 = language_md r2
         \<and> reading_level_md r1 = reading_level_md r2
         \<and> estimated_read_time_minutes_md r1 = estimated_read_time_minutes_md r2
         \<and> external_ids_md r1 = external_ids_md r2 \<and> cited_works_md r1 = cited_works_md r2
         \<and> custom_tags_md r1 = custom_tags_md r2
         \<and> content_warnings_md r1 = content_warnings_md r2))"
  by (cases r1, cases r2) auto

lemma DocumentMetadata_ingestion_fieldwise:
  "(((q1::DocumentMetadata_ingestion) = q2) =
        (title_i q1 = title_i q2 \<and> authors_i q1 = authors_i q2
         \<and> publication_date_i q1 = publication_date_i q2 \<and> source_url_i q1 = source_url_i q2
         \<and> primary_topic_i q1 = primary_topic_i q2 \<and> subtopics_i q1 = subtopics_i q2
         \<and> keywords_i q1 = keywords_i q2 \<and> doc_type_i q1 = doc_type_i q2
         \<and> credibility_score_i q1 = credibility_score_i q2
         \<and> publication_venue_i q1 = publication_venue_i q2
         \<and> peer_reviewed_i q1 = peer_reviewed_i q2 \<and> language_i q1 = language_i q2
         \<and> reading_level_i q1 = reading_level_i q2
         \<and> external_ids_i q1 = external_ids_i q2))"
  by (cases q1, cases q2) auto

lemmas bag_defs =
  empty_bag_def untitled_paper_def turing_paper_def construction_fails_def is_missing_def
  outside_unit_interval_def validation_issues_def required_def ge_le_def or_default_def

text \<open>
  Given keywords or subtopics end the construction of the class of
  \<^verbatim>\<open>preprocessing_recommendation.py\<close> with the \<^verbatim>\<open>TypeError\<close> of the validator call.
\<close>

lemma keywords_raise_TypeError:
  "DocumentMetadata_init (untitled_paper \<lparr> bag_keywords := Some [''Large Language Model''] \<rparr>)
     = Inl TypeError"
  by (rule DocumentMetadata_init_TypeError) simp

text \<open>
  Claim C4, as stated: construction fails exactly when title, primary_topic or doc_type
  is missing or empty, or the given score is outside the unit interval. Neither class
  constrains the length of a text field: a bag with an empty title, a topic and a
  document type is accepted by both, and the record carries the empty title.
\<close>

theorem DocumentMetadata_construction_counterexample:
  "construction_fails_spec untitled_paper
   \<and> map_sum id title_md (DocumentMetadata_init untitled_paper) = Inr []
   \<and> map_sum id title_i (DocumentMetadata_ingestion_init untitled_paper) = Inr []"
  by (simp add: construction_fails_spec_def untitled_paper_def empty_bag_def missing_or_empty_def
      DocumentMetadata_init_def DocumentMetadata_ingestion_init_def or_default_def required_def
      ge_le_def validation_issues_def validated_tokens_def)

text \<open>
  Claim C4, amended: for a bag whose given values have the declared types, construction
  of the class of \<^verbatim>\<open>example_multi_user_ingestion.py\<close>, and of the class of
  \<^verbatim>\<open>preprocessing_recommendation.py\<close> from a bag that gives neither keywords nor
  subtopics, fails exactly when title, primary_topic or doc_type is missing or the given
  credibility_score is outside the unit interval; empty text is accepted. The failure
  is a ValidationError listing the failed checks, and no record comes with it.
  Otherwise, for ASCII author names, the result is the record of the given values, the
  authors normalized and the defaults filled in. Two records of either class are equal
  exactly when all their fields are.
\<close>

theorem DocumentMetadata_construction:
  "isl (DocumentMetadata_ingestion_init bag) = construction_fails bag
   \<and> (construction_fails bag \<longrightarrow>
        validation_issues bag \<noteq> []
        \<and> DocumentMetadata_ingestion_init bag = Inl (ValidationError (validation_issues bag)))
   \<and> (\<not> construction_fails bag \<and> list_all isascii (or_default (bag_authors bag) []) \<longrightarrow>
        DocumentMetadata_ingestion_init bag =
          Inr \<lparr> title_i = the (bag_title bag),
                authors_i = map author_first_last (or_default (bag_authors bag) []),
                publication_date_i = bag_publication_date bag,
                source_url_i = bag_source_url bag,
                primary_topic_i = the (bag_primary_topic bag),
                subtopics_i = or_default (bag_subtopics bag) [],
                keywords_i = or_default (bag_keywords bag) [],
                doc_type_i = the (bag_doc_type bag),
                credibility_score_i = bag_credibility_score bag,
                publication_venue_i = bag_publication_venue bag,
                peer_reviewed_i = or_default (bag_peer_reviewed bag) False,
                language_i = or_default (bag_language bag) ''en'',
                reading_level_i = bag_reading_level bag,
                external_ids_i = or_default (bag_external_ids bag) [] \<rparr>)
   \<and> (bag_subtopics bag = None \<and> bag_keywords bag = None \<longrightarrow>
        isl (DocumentMetadata_init bag) = construction_fails bag
        \<and> (construction_fails bag \<longrightarrow>
             DocumentMetadata_init bag = Inl (ValidationError (validation_issues bag)))
        \<and> (\<not> construction_fails bag \<and> list_all isascii (or_default (bag_authors bag) []) \<longrightarrow>
             DocumentMetadata_init bag =
               Inr \<lparr> title_md = the (bag_title bag),
                     authors_md = map author_first_last (or_default (bag_authors bag) []),
                     publication_date_md = bag_publication_date bag,
                     source_url_md = bag_source_url bag,
                     primary_topic_md = the (bag_primary_topic bag),
                     subtopics_md = [],
                     keywords_md = [],
                     doc_type_md = the (bag_doc_type bag),
                     credibility_score_md = bag_credibility_score bag,
                     publication_venue_md = bag_publication_venue bag,
                     peer_reviewed_md = or_default (bag_peer_reviewed bag) False,
                     language_md = or_default (bag_language bag) ''en'',
                     reading_level_md = bag_reading_level bag,
                     estimated_read_time_minutes_md = bag_estimated_read_time_minutes bag,
                     external_ids_md = or_default (bag_external_ids bag) [],
                     cited_works_md = or_default (bag_cited_works bag) [],
                     custom_tags_md = or_default (bag_custom_tags bag) [],
                     content_warnings_md = or_default (bag_content_warnings bag) [] \<rparr>))
   \<and> (((r1::DocumentMetadata) = r2) =
        (title_md r1 = title_md r2 \<and> authors_md r1 = authors_md r2
         \<and> publication_date_md r1 = publication_date_md r2 \<and> source_url_md r1 = source_url_md r2
         \<and> primary_topic_md r1 = primary_topic_md r2 \<and> subtopics_md r1 = subtopics_md r2
         \<and> keywords_md r1 = keywords_md r2 \<and> doc_type_md r1 = doc_type_md r2
         \<and> credibility_score_md r1 = credibility_score_md r2
         \<and> publication_venue_md r1 = publication_venue_md r2
         \<and> peer_reviewed_md r1 = peer_reviewed_md r2 \<and> language_md r1 = language_md r2
         \<and> reading_level_md r1 = reading_level_md r2
         \<and> estimated_read_time_minutes_md r1 = estimated_read_time_minutes_md r2
         \<and> external_ids_md r1 = external_ids_md r2 \<and> cited_works_md r1 = cited_works_md r2
         \<and> custom_tags_md r1 = custom_tags_md r2
         \<and> content_warnings_md r1 = content_warnings_md r2))
   \<and> (((q1::DocumentMetadata_ingestion) = q2) =
        (title_i q1 = title_i q2 \<and> authors_i q1 = authors_i q2
         \<and> publication_date_i q1 = publication_date_i q2 \<and> source_url_i q1 = source_url_i q2
         \<and> primary_topic_i q1 = primary_topic_i q2 \<and> subtopics_i q1 = subtopics_i q2
         \<and> keywords_i q1 = keywords_i q2 \<and> doc_type_i q1 = doc_type_i q2
         \<and> credibility_score_i q1 = credibility_score_i q2
         \<and> publication_venue_i q1 = publication_venue_i q2
         \<and> peer_reviewed_i q1 = peer_reviewed_i q2 \<and> language_i q1 = language_i q2
         \<and> reading_level_i q1 = reading_level_i q2
         \<and> external_ids_i q1 = external_ids_i q2))"
proof -
  have a: "isl (DocumentMetadata_ingestion_init bag) = construction_fails bag"
    using DocumentMetadata_ingestion_init_fails [of bag]
      DocumentMetadata_ingestion_init_succeeds [of bag]
    by (cases "construction_fails bag") simp_all
  have b: "construction_fails bag \<Longrightarrow> validation_issues bag \<noteq> []"
    by (simp add: validation_issues_Nil)
  have c: "isl (DocumentMetadata_init bag) = construction_fails bag"
    if "bag_subtopics bag = None" "bag_keywords bag = None"
    using DocumentMetadata_init_fails [OF that] DocumentMetadata_init_succeeds [OF that]
    by (cases "construction_fails bag") simp_all
  from a b c DocumentMetadata_ingestion_init_fails [of bag]
    DocumentMetadata_ingestion_init_succeeds [of bag]
    DocumentMetadata_init_fails [of bag] DocumentMetadata_init_succeeds [of bag]
    DocumentMetadata_fieldwise [of r1 r2] DocumentMetadata_ingestion_fieldwise [of q1 q2]
  show ?thesis by blast
qed

theorem DocumentMetadata_construction_witness:
  "construction_fails (empty_bag \<lparr> bag_credibility_score := Some 2 \<rparr>)
   \<and> DocumentMetadata_ingestion_init (empty_bag \<lparr> bag_credibility_score := Some 2 \<rparr>)
       = Inl (ValidationError [Missing ''title'', Missing ''primary_topic'', Missing ''doc_type'',
                               NotInRange ''credibility_score''])
   \<and> DocumentMetadata_init (empty_bag \<lparr> bag_credibility_score := Some 2 \<rparr>)
       = Inl (ValidationError [Missing ''title'', Missing ''primary_topic'', Missing ''doc_type'',
                               NotInRange ''credibility_score''])
   \<and> \<not> construction_fails turing_paper
   \<and> list_all isascii (or_default (bag_authors turing_paper) [])
   \<and> bag_subtopics turing_paper = None \<and> bag_keywords turing_paper = None
   \<and> map_sum id authors_md (DocumentMetadata_init turing_paper) = Inr [''Alan Turing'']
   \<and> map_sum id title_md (DocumentMetadata_init turing_paper) = Inr ''On Computable Numbers''
   \<and> map_sum id language_md (DocumentMetadata_init turing_paper) = Inr ''en''
   \<and> map_sum id authors_i (DocumentMetadata_ingestion_init turing_paper) = Inr [''Alan Turing'']
   \<and> map_sum id credibility_score_i (DocumentMetadata_ingestion_init turing_paper) = Inr (Some (9/10))"
proof -
  let ?r = "projr (DocumentMetadata_init turing_paper)"
  let ?q = "projr (DocumentMetadata_ingestion_init turing_paper)"
  let ?bad = "empty_bag \<lparr> bag_credibility_score := Some 2 \<rparr>"
  have f: "construction_fails ?bad" "bag_subtopics ?bad = None" "bag_keywords ?bad = None"
    "validation_issues ?bad = [Missing ''title'', Missing ''primary_topic'', Missing ''doc_type'',
                               NotInRange ''credibility_score'']"
    by (simp_all add: bag_defs)
  have g: "\<not> construction_fails turing_paper"
    "list_all isascii (or_default (bag_authors turing_paper) [])"
    "bag_subtopics turing_paper = None" "bag_keywords turing_paper = None"
    by (simp_all add: bag_defs isascii_def)
  have n: "map author_first_last (or_default (bag_authors turing_paper) []) = [''Alan Turing'']"
    "the (bag_title turing_paper) = ''On Computable Numbers''"
    "or_default (bag_language turing_paper) ''en'' = ''en''"
    "bag_credibility_score turing_paper = Some (9/10)"
    by (simp_all add: bag_defs author_first_last_def first_part_def second_part_def text_defs)
  from DocumentMetadata_construction [of ?bad ?r ?r ?q ?q] f
  have 1: "DocumentMetadata_ingestion_init ?bad = Inl (ValidationError (validation_issues ?bad))"
    and 2: "DocumentMetadata_init ?bad = Inl (ValidationError (validation_issues ?bad))"
    by blast+
  from DocumentMetadata_construction [of turing_paper ?r ?r ?q ?q] g
  have 3: "DocumentMetadata_ingestion_init turing_paper =
          Inr \<lparr> title_i = the (bag_title turing_paper),
                authors_i = map author_first_last (or_default (bag_authors turing_paper) []),
                publication_date_i = bag_publication_date turing_paper,
                source_url_i = bag_source_url turing_paper,
                primary_topic_i = the (bag_primary_topic turing_paper),
                subtopics_i = or_default (bag_subtopics turing_paper) [],
                keywords_i = or_default (bag_keywords turing_paper) [],
                doc_type_i = the (bag_doc_type turing_paper),
                credibility_score_i = bag_credibility_score turing_paper,
                publication_venue_i = bag_publication_venue turing_paper,
                peer_reviewed_i = or_default (bag_peer_reviewed turing_paper) False,
                language_i = or_default (bag_language turing_paper) ''en'',
                reading_level_i = bag_reading_level turing_paper,
                external_ids_i = or_default (bag_external_ids turing_paper) [] \<rparr>"
    and 4: "DocumentMetadata_init turing_paper =
          Inr \<lparr> title_md = the (bag_title turing_paper),
                authors_md = map author_first_last (or_default (bag_authors turing_paper) []),
                publication_date_md = bag_publication_date turing_paper,
                source_url_md = bag_source_url turing_paper,
                primary_topic_md = the (bag_primary_topic turing_paper),
                subtopics_md = [],
                keywords_md = [],
                doc_type_md = the (bag_doc_type turing_paper),
                credibility_score_md = bag_credibility_score turing_paper,
                publication_venue_md = bag_publication_venue turing_paper,
                peer_reviewed_md = or_default (bag_peer_reviewed turing_paper) False,
                language_md = or_default (bag_language turing_paper) ''en'',
                reading_level_md = bag_reading_level turing_paper,
                estimated_read_time_minutes_md = bag_estimated_read_time_minutes turing_paper,
                external_ids_md = or_default (bag_external_ids turing_paper) [],
                cited_works_md = or_default (bag_cited_works turing_paper) [],
                custom_tags_md = or_default (bag_custom_tags turing_paper) [],
                content_warnings_md = or_default (bag_content_warnings turing_paper) [] \<rparr>"
    by blast+
  from f g 1 2 show ?thesis
    by (simp add: 3 4 n)
qed


section \<open>Properties of the canonical entity resolver\<close>

lemma is_word_char_lower_char: "is_word_char (lower_char c) = is_word_char c"
  by (auto simp: lower_char_def is_word_char_def ascii_uppercase_def ascii_lowercase_def digits_def)

lemma lower_char_eq_word: "lower_char c = lower_char d \<Longrightarrow> is_word_char c = is_word_char d"
  by (metis is_word_char_lower_char)

lemma length_lower [simp]: "length (lower s) = length s"
  by (simp add: lower_def)

lemma lower_eq_length: "lower s = lower t \<Longrightarrow> length s = length t"
  by (metis length_lower)

lemma lower_eq_wordlike:
  assumes "lower mid = lower abbrev" "wordlike abbrev"
  shows "mid \<noteq> [] \<and> is_word_char (hd mid) \<and> is_word_char (last mid)"
proof -
  from assms have ne: "mid \<noteq> []" "abbrev \<noteq> []"
    by (auto simp: wordlike_def lower_def)
  from assms(1) ne have "lower_char (hd mid) = lower_char (hd abbrev)"
    by (metis lower_def hd_map)
  moreover from assms(1) ne have "lower_char (last mid) = lower_char (last abbrev)"
    by (metis lower_def last_map)
  ultimately show ?thesis
    using assms(2) ne by (auto simp: wordlike_def dest: lower_char_eq_word)
qed

lemma word_boundary_append:
  "word_boundary (pre @ rest) (length pre) =
     ((pre \<noteq> [] \<and> is_word_char (last pre)) \<noteq> (rest \<noteq> [] \<and> is_word_char (hd rest)))"
proof -
  have "pre \<noteq> [] \<Longrightarrow> (pre @ rest) ! (length pre - 1) = last pre"
    by (simp add: nth_append last_conv_nth)
  moreover have "rest \<noteq> [] \<Longrightarrow> (pre @ rest) ! length pre = hd rest"
    by (simp add: hd_conv_nth nth_append)
  ultimately show ?thesis
    by (cases "pre = []"; cases "rest = []") (auto simp: word_boundary_def)
qed

lemma match_at_append:
  assumes "length mid = length abbrev"
  shows "match_at abbrev (pre @ mid @ post) (length pre) =
           (lower mid = lower abbrev
            \<and> word_boundary (pre @ mid @ post) (length pre)
            \<and> word_boundary ((pre @ mid) @ post) (length (pre @ mid)))"
  using assms by (auto simp: match_at_def)

lemma match_at_whole_word:
  assumes "wordlike abbrev" "lower mid = lower abbrev"
  shows "match_at abbrev (pre @ mid @ post) (length pre) = whole_word_at abbrev pre mid post"
proof -
  from lower_eq_wordlike [OF assms(2,1)]
  have m: "mid \<noteq> []" "is_word_char (hd mid)" "is_word_char (last mid)" by simp_all
  have len: "length mid = length abbrev" using assms(2) by (rule lower_eq_length)
  have b1: "word_boundary (pre @ mid @ post) (length pre) = (pre = [] \<or> \<not> is_word_char (last pre))"
    using m by (auto simp: word_boundary_append)
  have b2: "word_boundary ((pre @ mid) @ post) (length (pre @ mid)) = (post = [] \<or> \<not> is_word_char (hd post))"
    using m by (subst word_boundary_append) auto
  show ?thesis
    unfolding match_at_append [OF len] b1 b2 using assms(2) by (simp add: whole_word_at_def)
qed

lemma re_search_word_Some_iff:
  "(re_search_word abbrev text \<noteq> None) = (\<exists>i\<le>length text. match_at abbrev text i)"
proof -
  have "(re_search_word abbrev text \<noteq> None) = (\<exists>i<Suc (length text). match_at abbrev text i)"
    unfolding re_search_word_def find_None_iff by (simp del: upt_Suc)
  then show ?thesis by (simp only: less_Suc_eq_le)
qed

lemma re_search_word_whole_word:
  assumes "wordlike abbrev"
  shows "(re_search_word abbrev text \<noteq> None) = occurs_as_whole_word abbrev text"
proof
  assume "re_search_word abbrev text \<noteq> None"
  then obtain i where i: "i \<le> length text" "match_at abbrev text i"
    unfolding re_search_word_Some_iff by blast
  let ?pre = "take i text" and ?mid = "take (length abbrev) (drop i text)"
    and ?post = "drop (i + length abbrev) text"
  from i have fit: "i + length abbrev \<le> length text" and low: "lower ?mid = lower abbrev"
    by (simp_all add: match_at_def)
  have split: "text = ?pre @ ?mid @ ?post"
    by (metis append_take_drop_id drop_drop add.commute)
  have lp: "length ?pre = i" using i(1) by simp
  from i(2) have "match_at abbrev (?pre @ ?mid @ ?post) (length ?pre)"
    using split lp by simp
  then have "whole_word_at abbrev ?pre ?mid ?post"
    using match_at_whole_word [OF assms low] by blast
  with split show "occurs_as_whole_word abbrev text"
    unfolding occurs_as_whole_word_def by blast
next
  assume "occurs_as_whole_word abbrev text"
  then obtain pre mid post where t: "text = pre @ mid @ post" and w: "whole_word_at abbrev pre mid post"
    unfolding occurs_as_whole_word_def by blast
  from w have low: "lower mid = lower abbrev" by (simp add: whole_word_at_def)
  from w have "match_at abbrev text (length pre)"
    using match_at_whole_word [OF assms low] t by blast
  moreover have "length pre \<le> length text" using t by simp
  ultimately show "re_search_word abbrev text \<noteq> None"
    unfolding re_search_word_Some_iff by blast
qed









section \<open>Properties of the embedding\<close>

lemma expanded_form_backslash:
  "CHR 0x5C \<notin> set abbrev \<Longrightarrow> CHR 0x5C \<notin> set full_term \<Longrightarrow> CHR 0x5C \<notin> set (expanded_form abbrev full_term)"
  by (simp add: expanded_form_def)

lemma isascii_expand_first:
  assumes "isascii abbrev" "isascii full_term" "isascii s"
  shows "isascii (expand_first abbrev full_term s)"
proof (cases "re_search_word abbrev s")
  case None
  then show ?thesis using assms by (simp add: expand_first_def)
next
  case (Some i)
  have "set (take i s) \<subseteq> set s" "set (drop (i + length abbrev) s) \<subseteq> set s"
    by (rule set_take_subset, rule set_drop_subset)
  with assms show ?thesis
    by (auto simp: expand_first_def Some expanded_form_def isascii_def list_all_iff)
qed

lemma re_sub_word_first_plain:
  assumes "CHR 0x5C \<notin> set abbrev" "CHR 0x5C \<notin> set full_term"
  shows "re_sub_word_first template abbrev (expanded_form abbrev full_term) s
           = Inr (expand_first abbrev full_term s)"
  using expanded_form_backslash [OF assms]
  by (simp add: re_sub_word_first_def expand_first_def)

lemma enrich_plain:
  assumes "backslash_free canonical_map"
  shows "enrich_text_with_canonical_terms template s canonical_map
           = Inr (foldl (\<lambda>s (abbrev, full_term). expand_first abbrev full_term s) s canonical_map)"
  using assms
proof (induction canonical_map arbitrary: s)
  case Nil
  then show ?case by simp
next
  case (Cons p ps)
  obtain a t where p: "p = (a, t)" by (cases p)
  from Cons.prems p have b: "CHR 0x5C \<notin> set a" "CHR 0x5C \<notin> set t" "backslash_free ps"
    by (simp_all add: backslash_free_def)
  show ?case
    by (simp add: p re_sub_word_first_plain [OF b(1,2)] Cons.IH [OF b(3)])
qed

lemma re_search_word_Some:
  "(re_search_word abbrev s = Some i) =
     (i \<le> length s \<and> match_at abbrev s i \<and> (\<forall>j<i. \<not> match_at abbrev s j))"
proof -
  have n: "\<And>k. k < Suc (length s) \<Longrightarrow> [0..<Suc (length s)] ! k = k"
    by (metis add_0 nth_upt)
  show ?thesis
  proof
    assume "re_search_word abbrev s = Some i"
    then obtain k where k: "k < Suc (length s)" "match_at abbrev s ([0..<Suc (length s)] ! k)"
      "i = [0..<Suc (length s)] ! k" "\<forall>j<k. \<not> match_at abbrev s ([0..<Suc (length s)] ! j)"
      unfolding re_search_word_def find_Some_iff by (auto simp del: upt_Suc)
    from k(1,3) n have ik: "i = k" by simp
    with k n show "i \<le> length s \<and> match_at abbrev s i \<and> (\<forall>j<i. \<not> match_at abbrev s j)"
      by (metis less_Suc_eq_le less_trans)
  next
    assume a: "i \<le> length s \<and> match_at abbrev s i \<and> (\<forall>j<i. \<not> match_at abbrev s j)"
    then have "i < length [0..<Suc (length s)] \<and> match_at abbrev s ([0..<Suc (length s)] ! i)
        \<and> i = [0..<Suc (length s)] ! i \<and> (\<forall>j<i. \<not> match_at abbrev s ([0..<Suc (length s)] ! j))"
      using n by (simp del: upt_Suc)
    then show "re_search_word abbrev s = Some i"
      unfolding re_search_word_def find_Some_iff by blast
  qed
qed

lemma match_at_decompose:
  assumes "wordlike abbrev" "match_at abbrev s i"
  shows "s = take i s @ take (length abbrev) (drop i s) @ drop (i + length abbrev) s
         \<and> whole_word_at abbrev (take i s) (take (length abbrev) (drop i s)) (drop (i + length abbrev) s)"
proof -
  let ?pre = "take i s" and ?mid = "take (length abbrev) (drop i s)"
    and ?post = "drop (i + length abbrev) s"
  from assms(2) have fit: "i + length abbrev \<le> length s" and low: "lower ?mid = lower abbrev"
    by (simp_all add: match_at_def)
  have split: "s = ?pre @ ?mid @ ?post"
    by (metis append_take_drop_id drop_drop add.commute)
  have lp: "length ?pre = i" using fit by simp
  from assms(2) have "match_at abbrev (?pre @ ?mid @ ?post) (length ?pre)"
    using split lp by simp
  then have "whole_word_at abbrev ?pre ?mid ?post"
    using match_at_whole_word [OF assms(1) low] by blast
  with split show ?thesis by blast
qed

lemma whole_word_at_match:
  assumes "wordlike abbrev" "whole_word_at abbrev pre mid post"
  shows "match_at abbrev (pre @ mid @ post) (length pre)"
proof -
  from assms(2) have "lower mid = lower abbrev" by (simp add: whole_word_at_def)
  from match_at_whole_word [OF assms(1) this] assms(2) show ?thesis by blast
qed

lemma expand_first_no_occurrence:
  assumes "wordlike abbrev" "\<not> occurs_as_whole_word abbrev s"
  shows "expand_first abbrev full_term s = s"
proof -
  from assms have "re_search_word abbrev s = None"
    using re_search_word_whole_word [of abbrev s] by blast
  then show ?thesis by (simp add: expand_first_def)
qed

lemma expand_first_occurrence:
  assumes "wordlike abbrev" "occurs_as_whole_word abbrev s"
  shows "\<exists>pre mid post.
           s = pre @ mid @ post \<and> whole_word_at abbrev pre mid post
           \<and> (\<forall>pre' mid' post'. s = pre' @ mid' @ post' \<and> whole_word_at abbrev pre' mid' post'
                 \<longrightarrow> length pre \<le> length pre')
           \<and> expand_first abbrev full_term s = pre @ expanded_form abbrev full_term @ post"
proof -
  from assms obtain i where i: "re_search_word abbrev s = Some i"
    using re_search_word_whole_word [of abbrev s] by blast
  then have m: "i \<le> length s" "match_at abbrev s i" "\<forall>j<i. \<not> match_at abbrev s j"
    by (simp_all add: re_search_word_Some)
  let ?pre = "take i s" and ?mid = "take (length abbrev) (drop i s)"
    and ?post = "drop (i + length abbrev) s"
  note d = match_at_decompose [OF assms(1) m(2)]
  have lp: "length ?pre = i" using m(1) by simp
  have least: "length ?pre \<le> length pre'"
    if "s = pre' @ mid' @ post'" "whole_word_at abbrev pre' mid' post'" for pre' mid' post'
  proof (rule ccontr)
    assume "\<not> length ?pre \<le> length pre'"
    then have "length pre' < i" using lp by simp
    moreover have "match_at abbrev s (length pre')"
      using whole_word_at_match [OF assms(1) that(2)] that(1) by simp
    ultimately show False using m(3) by blast
  qed
  have "expand_first abbrev full_term s = ?pre @ expanded_form abbrev full_term @ ?post"
    by (simp add: expand_first_def i)
  with d least show ?thesis by blast
qed

text \<open>
  Claim C8, as stated: for each pair, the first whole-word occurrence of the abbreviation
  in the text is expanded and every other occurrence is left alone. The code rewrites
  the text pair after pair, and each pair searches the text as the pairs before it left
  it. With the pairs GPT and Transformer, "GPT is a Transformer" has its own word
  "Transformer" left bare; the expansion of Transformer lands inside the expansion of
  GPT, where the word was first met.
\<close>

theorem enrich_text_with_canonical_terms_counterexample:
  "enrich_text_with_canonical_terms no_template ''GPT is a Transformer''
     [(''GPT'', ''Generative Pre-trained Transformer''), (''Transformer'', ''attention model'')]
     = Inr ''GPT (Generative Pre-trained Transformer (attention model)) is a Transformer''
   \<and> embed_spec ''GPT is a Transformer''
     [(''GPT'', ''Generative Pre-trained Transformer''), (''Transformer'', ''attention model'')]
     = ''GPT (Generative Pre-trained Transformer) is a Transformer (attention model)''"
  by code_simp

text \<open>
  Claim C8, amended, for a text and a map of ASCII characters: for a map whose
  abbreviations and terms hold no backslash, the pairs are applied in the order of the
  map, each to the text as the pairs before it left it, which is ASCII again. One pair,
  its abbreviation beginning and ending with a word character, changes nothing when the
  abbreviation does not occur as a whole word; otherwise it replaces the leftmost
  whole-word occurrence, in any casing, by the abbreviation, a space and the term in
  parentheses, and keeps the text before and after that occurrence as it is. Embedding
  the pair for GPT into "GPT and GPT again" expands the first GPT only.
\<close>

theorem enrich_text_with_canonical_terms_amended:
  "(backslash_free canonical_map \<and> ascii_map canonical_map \<and> isascii text \<longrightarrow>
      enrich_text_with_canonical_terms template text canonical_map
        = Inr (foldl (\<lambda>s (abbrev, full_term). expand_first abbrev full_term s) text canonical_map))
   \<and> (isascii abbrev \<and> isascii full_term \<and> isascii s \<longrightarrow>
        isascii (expand_first abbrev full_term s))
   \<and> (wordlike abbrev \<and> isascii abbrev \<and> isascii s \<and> \<not> occurs_as_whole_word abbrev s \<longrightarrow>
        expand_first abbrev full_term s = s)
   \<and> (wordlike abbrev \<and> isascii abbrev \<and> isascii s \<and> occurs_as_whole_word abbrev s \<longrightarrow>
        (\<exists>pre mid post.
           s = pre @ mid @ post \<and> whole_word_at abbrev pre mid post
           \<and> (\<forall>pre' mid' post'. s = pre' @ mid' @ post' \<and> whole_word_at abbrev pre' mid' post'
                 \<longrightarrow> length pre \<le> length pre')
           \<and> expand_first abbrev full_term s = pre @ expanded_form abbrev full_term @ post))
   \<and> enrich_text_with_canonical_terms template ''GPT and GPT again''
        [(''GPT'', ''Generative Pre-trained Transformer'')]
        = Inr ''GPT (Generative Pre-trained Transformer) and GPT again''"
proof -
  have "backslash_free [(''GPT'', ''Generative Pre-trained Transformer'')]"
    by (simp add: backslash_free_def)
  from enrich_plain [OF this, of template "''GPT and GPT again''"]
  have "enrich_text_with_canonical_terms template ''GPT and GPT again''
          [(''GPT'', ''Generative Pre-trained Transformer'')]
        = Inr (expand_first ''GPT'' ''Generative Pre-trained Transformer'' ''GPT and GPT again'')"
    by simp
  also have "expand_first ''GPT'' ''Generative Pre-trained Transformer'' ''GPT and GPT again''
        = ''GPT (Generative Pre-trained Transformer) and GPT again''"
    by code_simp
  finally show ?thesis
    using enrich_plain [of canonical_map template "text"]
      expand_first_no_occurrence [of abbrev s full_term]
      expand_first_occurrence [of abbrev s full_term]
      isascii_expand_first [of abbrev full_term s]
    by blast
qed

theorem enrich_text_with_canonical_terms_amended_witness:
  "backslash_free [(''GPT'', ''Generative Pre-trained Transformer''), (''LLM'', ''Large Language Model'')]
   \<and> ascii_map [(''GPT'', ''Generative Pre-trained Transformer''), (''LLM'', ''Large Language Model'')]
   \<and> isascii ''A gpt is an LLM; GPT and LLM again''
   \<and> isascii ''GPT'' \<and> isascii ''Generative Pre-trained Transformer''
   \<and> isascii ''GPTs and _GPT'' \<and> isascii ''GPT and GPT again''
   \<and> enrich_text_with_canonical_terms no_template ''A gpt is an LLM; GPT and LLM again''
        [(''GPT'', ''Generative Pre-trained Transformer''), (''LLM'', ''Large Language Model'')]
       = Inr ''A GPT (Generative Pre-trained Transformer) is an LLM (Large Language Model); GPT and LLM again''
   \<and> wordlike ''GPT''
   \<and> \<not> occurs_as_whole_word ''GPT'' ''GPTs and _GPT''
   \<and> expand_first ''GPT'' ''Generative Pre-trained Transformer'' ''GPTs and _GPT'' = ''GPTs and _GPT''
   \<and> occurs_as_whole_word ''GPT'' ''GPT and GPT again''
   \<and> expand_first ''GPT'' ''Generative Pre-trained Transformer'' ''GPT and GPT again''
       = ''GPT (Generative Pre-trained Transformer) and GPT again''"
proof -
  let ?m = "[(''GPT'', ''Generative Pre-trained Transformer''), (''LLM'', ''Large Language Model'')]"
  let ?t = "''Generative Pre-trained Transformer''"
  have b: "backslash_free ?m"
    by (simp add: backslash_free_def)
  have a: "ascii_map ?m" "isascii ''A gpt is an LLM; GPT and LLM again''"
    "isascii ''GPT''" "isascii ''Generative Pre-trained Transformer''"
    "isascii ''GPTs and _GPT''" "isascii ''GPT and GPT again''"
    by (simp_all add: ascii_map_def isascii_def)
  have w: "wordlike ''GPT''"
    by (simp add: wordlike_def text_defs)
  have "re_search_word ''GPT'' ''GPTs and _GPT'' = None"
    by code_simp
  with w have n: "\<not> occurs_as_whole_word ''GPT'' ''GPTs and _GPT''"
    using re_search_word_whole_word [of "''GPT''" "''GPTs and _GPT''"] by simp
  have "re_search_word ''GPT'' ''GPT and GPT again'' \<noteq> None"
    by code_simp
  with w have o: "occurs_as_whole_word ''GPT'' ''GPT and GPT again''"
    using re_search_word_whole_word [of "''GPT''" "''GPT and GPT again''"] by simp
  have f: "foldl (\<lambda>s (abbrev, full_term). expand_first abbrev full_term s)
             ''A gpt is an LLM; GPT and LLM again'' ?m
           = ''A GPT (Generative Pre-trained Transformer) is an LLM (Large Language Model); GPT and LLM again''"
    by code_simp
  have g: "expand_first ''GPT'' ?t ''GPT and GPT again''
             = ''GPT (Generative Pre-trained Transformer) and GPT again''"
    by code_simp
  from enrich_text_with_canonical_terms_amended
         [of ?m "''A gpt is an LLM; GPT and LLM again''" no_template "''GPT''" ?t "''GPTs and _GPT''"]
       a b w n f
  have 1: "enrich_text_with_canonical_terms no_template ''A gpt is an LLM; GPT and LLM again'' ?m
             = Inr ''A GPT (Generative Pre-trained Transformer) is an LLM (Large Language Model); GPT and LLM again''"
    and 2: "expand_first ''GPT'' ?t ''GPTs and _GPT'' = ''GPTs and _GPT''"
    by simp_all
  from a b 1 w n 2 o g show ?thesis by blast
qed


section \<open>Properties of the extraction-instruction string\<close>

lemmas prompt_defs =
  get_custom_prompt_def dict_get_def canonical_mappings_def base_prompt_def entity_types_def
  relationships_def consistency_def arrow_def

lemma canonical_mappings_keys:
  "distinct (map fst canonical_mappings)
   \<and> fst ` set canonical_mappings = {''AI'', ''quantum_computing'', ''biology''}"
  by (simp add: canonical_mappings_def)

text \<open>
  Claim C9: for every topic the instruction string is the preamble, the naming block that
  the table gives for the topic (nothing for a topic that is not one of its three keys),
  the entity-type catalogue, the relationship catalogue and the consistency rules, in
  this order and with nothing else; the four fixed blocks do not depend on the topic.
  The strings are written out: the prompt of each of the three topics and the prompt of
  every other topic, character by character, the arrow U+2192 as its three UTF-8 bytes.
\<close>

theorem get_custom_prompt_blocks:
  \<open>get_custom_prompt ''AI'' =
       ''\<newline>''
     @ ''You are extracting entities for a technical knowledge base.\<newline>''
     @ ''\<newline>''
     @ ''**Use canonical entity names (REQUIRED):**\<newline>''
     @ ''\<newline>''
     @ ''- "Generative Pre-trained Transformer" NOT "GPT"\<newline>''
     @ ''- "Large Language Model" NOT "LLM"\<newline>''
     @ ''- "Natural Language Processing" NOT "NLP"\<newline>''
     @ ''- "Transformer Architecture" NOT "transformers"\<newline>''
     @ ''- "Convolutional Neural Network" NOT "CNN"\<newline>''
     @ ''- "Reinforcement Learning" NOT "RL"\<newline>''
     @ ''\<newline>''
     @ ''**Extract these entity types:**\<newline>''
     @ ''- **Concept**: Technical concepts, theories, algorithms\<newline>''
     @ ''- **Person**: Researchers, authors, experts (use full names)\<newline>''
     @ ''- **Organization**: Research labs, companies, universities\<newline>''
     @ ''- **Technology**: Tools, frameworks, systems\<newline>''
     @ ''- **Method**: Techniques, methodologies, approaches\<newline>''
     @ ''- **Paper**: Academic papers (extract title + year if available)\<newline>''
     @ ''\<newline>''
     @ ''**Relationship types:**\<newline>''
     @ ''- is_subfield_of: Subtopic '' @ [CHR 0xE2, CHR 0x86, CHR 0x92] @ '' main topic\<newline>''
     @ ''- builds_on: New concept '' @ [CHR 0xE2, CHR 0x86, CHR 0x92] @ '' foundational concept\<newline>''
     @ ''- developed_by: Technology '' @ [CHR 0xE2, CHR 0x86, CHR 0x92] @ '' creator\<newline>''
     @ ''- published_in: Paper '' @ [CHR 0xE2, CHR 0x86, CHR 0x92] @ '' venue\<newline>''
     @ ''- applied_to: Method '' @ [CHR 0xE2, CHR 0x86, CHR 0x92] @ '' application domain\<newline>''
     @ ''- related_to: General conceptual connections\<newline>''
     @ ''\<newline>''
     @ ''**Consistency requirements:**\<newline>''
     @ ''- Always use full canonical names on first mention\<newline>''
     @ ''- Link abbreviations to canonical forms\<newline>''
     @ ''- Maintain consistent entity IDs across chunks\<newline>''
     @ ''- Use snake_case for relationship names (e.g., is_subfield_of)\<newline>''
   \<and> get_custom_prompt ''quantum_computing'' =
       ''\<newline>''
     @ ''You are extracting entities for a technical knowledge base.\<newline>''
     @ ''\<newline>''
     @ ''**Use canonical entity names (REQUIRED):**\<newline>''
     @ ''\<newline>''
     @ ''- "Quantum Computing" NOT "QC"\<newline>''
     @ ''- "Quantum Key Distribution" NOT "QKD"\<newline>''
     @ ''- "Variational Quantum Eigensolver" NOT "VQE"\<newline>''
     @ ''- "Quantum Processing Unit" NOT "QPU"\<newline>''
     @ ''\<newline>''
     @ ''**Extract these entity types:**\<newline>''
     @ ''- **Concept**: Technical concepts, theories, algorithms\<newline>''
     @ ''- **Person**: Researchers, authors, experts (use full names)\<newline>''
     @ ''- **Organization**: Research labs, companies, universities\<newline>''
     @ ''- **Technology**: Tools, frameworks, systems\<newline>''
     @ ''- **Method**: Techniques, methodologies, approaches\<newline>''
     @ ''- **Paper**: Academic papers (extract title + year if available)\<newline>''
     @ ''\<newline>''
     @ ''**Relationship types:**\<newline>''
     @ ''- is_subfield_of: Subtopic '' @ [CHR 0xE2, CHR 0x86, CHR 0x92] @ '' main topic\<newline>''
     @ ''- builds_on: New concept '' @ [CHR 0xE2, CHR 0x86, CHR 0x92] @ '' foundational concept\<newline>''
     @ ''- developed_by: Technology '' @ [CHR 0xE2, CHR 0x86, CHR 0x92] @ '' creator\<newline>''
     @ ''- published_in: Paper '' @ [CHR 0xE2, CHR 0x86, CHR 0x92] @ '' venue\<newline>''
     @ ''- applied_to: Method '' @ [CHR 0xE2, CHR 0x86, CHR 0x92] @ '' application domain\<newline>''
     @ ''- related_to: General conceptual connections\<newline>''
     @ ''\<newline>''
     @ ''**Consistency requirements:**\<newline>''
     @ ''- Always use full canonical names on first mention\<newline>''
     @ ''- Link abbreviations to canonical forms\<newline>''
     @ ''- Maintain consistent entity IDs across chunks\<newline>''
     @ ''- Use snake_case for relationship names (e.g., is_subfield_of)\<newline>''
   \<and> get_custom_prompt ''biology'' =
       ''\<newline>''
     @ ''You are extracting entities for a technical knowledge base.\<newline>''
     @ ''\<newline>''
     @ ''**Use canonical entity names (REQUIRED):**\<newline>''
     @ ''\<newline>''
     @ ''- "Deoxyribonucleic Acid" NOT "DNA"\<newline>''
     @ ''- "Ribonucleic Acid" NOT "RNA"\<newline>''
     @ ''- "Clustered Regularly Interspaced Short Palindromic Repeats" NOT "CRISPR"\<newline>''
     @ ''- "Polymerase Chain Reaction" NOT "PCR"\<newline>''
     @ ''\<newline>''
     @ ''**Extract these entity types:**\<newline>''
     @ ''- **Concept**: Technical concepts, theories, algorithms\<newline>''
     @ ''- **Person**: Researchers, authors, experts (use full names)\<newline>''
     @ ''- **Organization**: Research labs, companies, universities\<newline>''
     @ ''- **Technology**: Tools, frameworks, systems\<newline>''
     @ ''- **Method**: Techniques, methodologies, approaches\<newline>''
     @ ''- **Paper**: Academic papers (extract title + year if available)\<newline>''
     @ ''\<newline>''
     @ ''**Relationship types:**\<newline>''
     @ ''- is_subfield_of: Subtopic '' @ [CHR 0xE2, CHR 0x86, CHR 0x92] @ '' main topic\<newline>''
     @ ''- builds_on: New concept '' @ [CHR 0xE2, CHR 0x86, CHR 0x92] @ '' foundational concept\<newline>''
     @ ''- developed_by: Technology '' @ [CHR 0xE2, CHR 0x86, CHR 0x92] @ '' creator\<newline>''
     @ ''- published_in: Paper '' @ [CHR 0xE2, CHR 0x86, CHR 0x92] @ '' venue\<newline>''
     @ ''- applied_to: Method '' @ [CHR 0xE2, CHR 0x86, CHR 0x92] @ '' application domain\<newline>''
     @ ''- related_to: General conceptual connections\<newline>''
     @ ''\<newline>''
     @ ''**Consistency requirements:**\<newline>''
     @ ''- Always use full canonical names on first mention\<newline>''
     @ ''- Link abbreviations to canonical forms\<newline>''
     @ ''- Maintain consistent entity IDs across chunks\<newline>''
     @ ''- Use snake_case for relationship names (e.g., is_subfield_of)\<newline>''
   \<and> (topic \<notin> {''AI'', ''quantum_computing'', ''biology''} \<longrightarrow>
      get_custom_prompt topic =
         ''\<newline>''
       @ ''You are extracting entities for a technical knowledge base.\<newline>''
       @ ''\<newline>''
       @ ''**Use canonical entity names (REQUIRED):**\<newline>''
       @ ''\<newline>''
       @ ''**Extract these entity types:**\<newline>''
       @ ''- **Concept**: Technical concepts, theories, algorithms\<newline>''
       @ ''- **Person**: Researchers, authors, experts (use full names)\<newline>''
       @ ''- **Organization**: Research labs, companies, universities\<newline>''
       @ ''- **Technology**: Tools, frameworks, systems\<newline>''
       @ ''- **Method**: Techniques, methodologies, approaches\<newline>''
       @ ''- **Paper**: Academic papers (extract title + year if available)\<newline>''
       @ ''\<newline>''
       @ ''**Relationship types:**\<newline>''
       @ ''- is_subfield_of: Subtopic '' @ [CHR 0xE2, CHR 0x86, CHR 0x92] @ '' main topic\<newline>''
       @ ''- builds_on: New concept '' @ [CHR 0xE2, CHR 0x86, CHR 0x92] @ '' foundational concept\<newline>''
       @ ''- developed_by: Technology '' @ [CHR 0xE2, CHR 0x86, CHR 0x92] @ '' creator\<newline>''
       @ ''- published_in: Paper '' @ [CHR 0xE2, CHR 0x86, CHR 0x92] @ '' venue\<newline>''
       @ ''- applied_to: Method '' @ [CHR 0xE2, CHR 0x86, CHR 0x92] @ '' application domain\<newline>''
       @ ''- related_to: General conceptual connections\<newline>''
       @ ''\<newline>''
       @ ''**Consistency requirements:**\<newline>''
       @ ''- Always use full canonical names on first mention\<newline>''
       @ ''- Link abbreviations to canonical forms\<newline>''
       @ ''- Maintain consistent entity IDs across chunks\<newline>''
       @ ''- Use snake_case for relationship names (e.g., is_subfield_of)\<newline>'')
   \<and> (\<forall>block. (topic, block) \<in> set canonical_mappings \<longrightarrow>
        get_custom_prompt topic = base_prompt @ block @ entity_types @ relationships @ consistency)
   \<and> (topic \<notin> fst ` set canonical_mappings \<longrightarrow>
        get_custom_prompt topic = base_prompt @ [] @ entity_types @ relationships @ consistency)
   \<and> fst ` set canonical_mappings = {''AI'', ''quantum_computing'', ''biology''}\<close>
proof -
  have blocks: "get_custom_prompt topic = base_prompt @ block @ entity_types @ relationships @ consistency"
    if "(topic, block) \<in> set canonical_mappings" for block
  proof -
    from canonical_mappings_keys that have "map_of canonical_mappings topic = Some block"
      by (simp add: map_of_is_SomeI)
    then show ?thesis by (simp add: get_custom_prompt_def dict_get_def)
  qed
  have other: "get_custom_prompt topic = base_prompt @ [] @ entity_types @ relationships @ consistency"
    if "topic \<notin> fst ` set canonical_mappings"
  proof -
    from that have "map_of canonical_mappings topic = None"
      by (simp add: map_of_eq_None_iff)
    then show ?thesis by (simp add: get_custom_prompt_def dict_get_def)
  qed
  have ai: \<open>get_custom_prompt ''AI'' =
       ''\<newline>''
     @ ''You are extracting entities for a technical knowledge base.\<newline>''
     @ ''\<newline>''
     @ ''**Use canonical entity names (REQUIRED):**\<newline>''
     @ ''\<newline>''
     @ ''- "Generative Pre-trained Transformer" NOT "GPT"\<newline>''
     @ ''- "Large Language Model" NOT "LLM"\<newline>''
     @ ''- "Natural Language Processing" NOT "NLP"\<newline>''
     @ ''- "Transformer Architecture" NOT "transformers"\<newline>''
     @ ''- "Convolutional Neural Network" NOT "CNN"\<newline>''
     @ ''- "Reinforcement Learning" NOT "RL"\<newline>''
     @ ''\<newline>''
     @ ''**Extract these entity types:**\<newline>''
     @ ''- **Concept**: Technical concepts, theories, algorithms\<newline>''
     @ ''- **Person**: Researchers, authors, experts (use full names)\<newline>''
     @ ''- **Organization**: Research labs, companies, universities\<newline>''
     @ ''- **Technology**: Tools, frameworks, systems\<newline>''
     @ ''- **Method**: Techniques, methodologies, approaches\<newline>''
     @ ''- **Paper**: Academic papers (extract title + year if available)\<newline>''
     @ ''\<newline>''
     @ ''**Relationship types:**\<newline>''
     @ ''- is_subfield_of: Subtopic '' @ [CHR 0xE2, CHR 0x86, CHR 0x92] @ '' main topic\<newline>''
     @ ''- builds_on: New concept '' @ [CHR 0xE2, CHR 0x86, CHR 0x92] @ '' foundational concept\<newline>''
     @ ''- developed_by: Technology '' @ [CHR 0xE2, CHR 0x86, CHR 0x92] @ '' creator\<newline>''
     @ ''- published_in: Paper '' @ [CHR 0xE2, CHR 0x86, CHR 0x92] @ '' venue\<newline>''
     @ ''- applied_to: Method '' @ [CHR 0xE2, CHR 0x86, CHR 0x92] @ '' application domain\<newline>''
     @ ''- related_to: General conceptual connections\<newline>''
     @ ''\<newline>''
     @ ''**Consistency requirements:**\<newline>''
     @ ''- Always use full canonical names on first mention\<newline>''
     @ ''- Link abbreviations to canonical forms\<newline>''
     @ ''- Maintain consistent entity IDs across chunks\<newline>''
     @ ''- Use snake_case for relationship names (e.g., is_subfield_of)\<newline>''\<close>
    by (simp add: prompt_defs)
  have qc: \<open>get_custom_prompt ''quantum_computing'' =
       ''\<newline>''
     @ ''You are extracting entities for a technical knowledge base.\<newline>''
     @ ''\<newline>''
     @ ''**Use canonical entity names (REQUIRED):**\<newline>''
     @ ''\<newline>''
     @ ''- "Quantum Computing" NOT "QC"\<newline>''
     @ ''- "Quantum Key Distribution" NOT "QKD"\<newline>''
     @ ''- "Variational Quantum Eigensolver" NOT "VQE"\<newline>''
     @ ''- "Quantum Processing Unit" NOT "QPU"\<newline>''
     @ ''\<newline>''
     @ ''**Extract these entity types:**\<newline>''
     @ ''- **Concept**: Technical concepts, theories, algorithms\<newline>''
     @ ''- **Person**: Researchers, authors, experts (use full names)\<newline>''
     @ ''- **Organization**: Research labs, companies, universities\<newline>''
     @ ''- **Technology**: Tools, frameworks, systems\<newline>''
     @ ''- **Method**: Techniques, methodologies, approaches\<newline>''
     @ ''- **Paper**: Academic papers (extract title + year if available)\<newline>''
     @ ''\<newline>''
     @ ''**Relationship types:**\<newline>''
     @ ''- is_subfield_of: Subtopic '' @ [CHR 0xE2, CHR 0x86, CHR 0x92] @ '' main topic\<newline>''
     @ ''- builds_on: New concept '' @ [CHR 0xE2, CHR 0x86, CHR 0x92] @ '' foundational concept\<newline>''
     @ ''- developed_by: Technology '' @ [CHR 0xE2, CHR 0x86, CHR 0x92] @ '' creator\<newline>''
     @ ''- published_in: Paper '' @ [CHR 0xE2, CHR 0x86, CHR 0x92] @ '' venue\<newline>''
     @ ''- applied_to: Method '' @ [CHR 0xE2, CHR 0x86, CHR 0x92] @ '' application domain\<newline>''
     @ ''- related_to: General conceptual connections\<newline>''
     @ ''\<newline>''
     @ ''**Consistency requirements:**\<newline>''
     @ ''- Always use full canonical names on first mention\<newline>''
     @ ''- Link abbreviations to canonical forms\<newline>''
     @ ''- Maintain consistent entity IDs across chunks\<newline>''
     @ ''- Use snake_case for relationship names (e.g., is_subfield_of)\<newline>''\<close>
    by (simp add: prompt_defs)
  have bio: \<open>get_custom_prompt ''biology'' =
       ''\<newline>''
     @ ''You are extracting entities for a technical knowledge base.\<newline>''
     @ ''\<newline>''
     @ ''**Use canonical entity names (REQUIRED):**\<newline>''
     @ ''\<newline>''
     @ ''- "Deoxyribonucleic Acid" NOT "DNA"\<newline>''
     @ ''- "Ribonucleic Acid" NOT "RNA"\<newline>''
     @ ''- "Clustered Regularly Interspaced Short Palindromic Repeats" NOT "CRISPR"\<newline>''
     @ ''- "Polymerase Chain Reaction" NOT "PCR"\<newline>''
     @ ''\<newline>''
     @ ''**Extract these entity types:**\<newline>''
     @ ''- **Concept**: Technical concepts, theories, algorithms\<newline>''
     @ ''- **Person**: Researchers, authors, experts (use full names)\<newline>''
     @ ''- **Organization**: Research labs, companies, universities\<newline>''
     @ ''- **Technology**: Tools, frameworks, systems\<newline>''
     @ ''- **Method**: Techniques, methodologies, approaches\<newline>''
     @ ''- **Paper**: Academic papers (extract title + year if available)\<newline>''
     @ ''\<newline>''
     @ ''**Relationship types:**\<newline>''
     @ ''- is_subfield_of: Subtopic '' @ [CHR 0xE2, CHR 0x86, CHR 0x92] @ '' main topic\<newline>''
     @ ''- builds_on: New concept '' @ [CHR 0xE2, CHR 0x86, CHR 0x92] @ '' foundational concept\<newline>''
     @ ''- developed_by: Technology '' @ [CHR 0xE2, CHR 0x86, CHR 0x92] @ '' creator\<newline>''
     @ ''- published_in: Paper '' @ [CHR 0xE2, CHR 0x86, CHR 0x92] @ '' venue\<newline>''
     @ ''- applied_to: Method '' @ [CHR 0xE2, CHR 0x86, CHR 0x92] @ '' application domain\<newline>''
     @ ''- related_to: General conceptual connections\<newline>''
     @ ''\<newline>''
     @ ''**Consistency requirements:**\<newline>''
     @ ''- Always use full canonical names on first mention\<newline>''
     @ ''- Link abbreviations to canonical forms\<newline>''
     @ ''- Maintain consistent entity IDs across chunks\<newline>''
     @ ''- Use snake_case for relationship names (e.g., is_subfield_of)\<newline>''\<close>
    by (simp add: prompt_defs)
  have unknown: \<open>(topic \<notin> {''AI'', ''quantum_computing'', ''biology''} \<longrightarrow>
      get_custom_prompt topic =
         ''\<newline>''
       @ ''You are extracting entities for a technical knowledge base.\<newline>''
       @ ''\<newline>''
       @ ''**Use canonical entity names (REQUIRED):**\<newline>''
       @ ''\<newline>''
       @ ''**Extract these entity types:**\<newline>''
       @ ''- **Concept**: Technical concepts, theories, algorithms\<newline>''
       @ ''- **Person**: Researchers, authors, experts (use full names)\<newline>''
       @ ''- **Organization**: Research labs, companies, universities\<newline>''
       @ ''- **Technology**: Tools, frameworks, systems\<newline>''
       @ ''- **Method**: Techniques, methodologies, approaches\<newline>''
       @ ''- **Paper**: Academic papers (extract title + year if available)\<newline>''
       @ ''\<newline>''
       @ ''**Relationship types:**\<newline>''
       @ ''- is_subfield_of: Subtopic '' @ [CHR 0xE2, CHR 0x86, CHR 0x92] @ '' main topic\<newline>''
       @ ''- builds_on: New concept '' @ [CHR 0xE2, CHR 0x86, CHR 0x92] @ '' foundational concept\<newline>''
       @ ''- developed_by: Technology '' @ [CHR 0xE2, CHR 0x86, CHR 0x92] @ '' creator\<newline>''
       @ ''- published_in: Paper '' @ [CHR 0xE2, CHR 0x86, CHR 0x92] @ '' venue\<newline>''
       @ ''- applied_to: Method '' @ [CHR 0xE2, CHR 0x86, CHR 0x92] @ '' application domain\<newline>''
       @ ''- related_to: General conceptual connections\<newline>''
       @ ''\<newline>''
       @ ''**Consistency requirements:**\<newline>''
       @ ''- Always use full canonical names on first mention\<newline>''
       @ ''- Link abbreviations to canonical forms\<newline>''
       @ ''- Maintain consistent entity IDs across chunks\<newline>''
       @ ''- Use snake_case for relationship names (e.g., is_subfield_of)\<newline>'')\<close>
    by (simp add: prompt_defs)
  have keys: "fst ` set canonical_mappings = {''AI'', ''quantum_computing'', ''biology''}"
    using canonical_mappings_keys by (rule conjunct2)
  show ?thesis
    by (intro conjI allI impI ai qc bio unknown [rule_format] blocks other keys)
qed

theorem get_custom_prompt_blocks_witness:
  \<open>''ai'' \<notin> {''AI'', ''quantum_computing'', ''biology''}
   \<and> ''ai'' \<notin> fst ` set canonical_mappings
   \<and> (''biology'', dict_get canonical_mappings ''biology'' []) \<in> set canonical_mappings
   \<and> get_custom_prompt ''biology''
       = base_prompt @ dict_get canonical_mappings ''biology'' [] @ entity_types @ relationships @ consistency
   \<and> get_custom_prompt ''ai'' =
         ''\<newline>''
       @ ''You are extracting entities for a technical knowledge base.\<newline>''
       @ ''\<newline>''
       @ ''**Use canonical entity names (REQUIRED):**\<newline>''
       @ ''\<newline>''
       @ ''**Extract these entity types:**\<newline>''
       @ ''- **Concept**: Technical concepts, theories, algorithms\<newline>''
       @ ''- **Person**: Researchers, authors, experts (use full names)\<newline>''
       @ ''- **Organization**: Research labs, companies, universities\<newline>''
       @ ''- **Technology**: Tools, frameworks, systems\<newline>''
       @ ''- **Method**: Techniques, methodologies, approaches\<newline>''
       @ ''- **Paper**: Academic papers (extract title + year if available)\<newline>''
       @ ''\<newline>''
       @ ''**Relationship types:**\<newline>''
       @ ''- is_subfield_of: Subtopic '' @ [CHR 0xE2, CHR 0x86, CHR 0x92] @ '' main topic\<newline>''
       @ ''- builds_on: New concept '' @ [CHR 0xE2, CHR 0x86, CHR 0x92] @ '' foundational concept\<newline>''
       @ ''- developed_by: Technology '' @ [CHR 0xE2, CHR 0x86, CHR 0x92] @ '' creator\<newline>''
       @ ''- published_in: Paper '' @ [CHR 0xE2, CHR 0x86, CHR 0x92] @ '' venue\<newline>''
       @ ''- applied_to: Method '' @ [CHR 0xE2, CHR 0x86, CHR 0x92] @ '' application domain\<newline>''
       @ ''- related_to: General conceptual connections\<newline>''
       @ ''\<newline>''
       @ ''**Consistency requirements:**\<newline>''
       @ ''- Always use full canonical names on first mention\<newline>''
       @ ''- Link abbreviations to canonical forms\<newline>''
       @ ''- Maintain consistent entity IDs across chunks\<newline>''
       @ ''- Use snake_case for relationship names (e.g., is_subfield_of)\<newline>''\<close>
proof -
  have k: "(''biology'', dict_get canonical_mappings ''biology'' []) \<in> set canonical_mappings"
    by (simp add: canonical_mappings_def dict_get_def)
  have u: "''ai'' \<notin> {''AI'', ''quantum_computing'', ''biology''}"
    "''ai'' \<notin> fst ` set canonical_mappings"
    by (simp_all add: canonical_mappings_def)
  from get_custom_prompt_blocks [of "''biology''"]
  have "\<forall>block. (''biology'', block) \<in> set canonical_mappings \<longrightarrow>
          get_custom_prompt ''biology''
            = base_prompt @ block @ entity_types @ relationships @ consistency"
    by (elim conjE)
  with k have b: "get_custom_prompt ''biology''
       = base_prompt @ dict_get canonical_mappings ''biology'' [] @ entity_types @ relationships @ consistency"
    by (elim allE impE)
  from get_custom_prompt_blocks [of "''ai''"]
  have \<open>''ai'' \<notin> {''AI'', ''quantum_computing'', ''biology''} \<longrightarrow>
      get_custom_prompt ''ai'' =
         ''\<newline>''
       @ ''You are extracting entities for a technical knowledge base.\<newline>''
       @ ''\<newline>''
       @ ''**Use canonical entity names (REQUIRED):**\<newline>''
       @ ''\<newline>''
       @ ''**Extract these entity types:**\<newline>''
       @ ''- **Concept**: Technical concepts, theories, algorithms\<newline>''
       @ ''- **Person**: Researchers, authors, experts (use full names)\<newline>''
       @ ''- **Organization**: Research labs, companies, universities\<newline>''
       @ ''- **Technology**: Tools, frameworks, systems\<newline>''
       @ ''- **Method**: Techniques, methodologies, approaches\<newline>''
       @ ''- **Paper**: Academic papers (extract title + year if available)\<newline>''
       @ ''\<newline>''
       @ ''**Relationship types:**\<newline>''
       @ ''- is_subfield_of: Subtopic '' @ [CHR 0xE2, CHR 0x86, CHR 0x92] @ '' main topic\<newline>''
       @ ''- builds_on: New concept '' @ [CHR 0xE2, CHR 0x86, CHR 0x92] @ '' foundational concept\<newline>''
       @ ''- developed_by: Technology '' @ [CHR 0xE2, CHR 0x86, CHR 0x92] @ '' creator\<newline>''
       @ ''- published_in: Paper '' @ [CHR 0xE2, CHR 0x86, CHR 0x92] @ '' venue\<newline>''
       @ ''- applied_to: Method '' @ [CHR 0xE2, CHR 0x86, CHR 0x92] @ '' application domain\<newline>''
       @ ''- related_to: General conceptual connections\<newline>''
       @ ''\<newline>''
       @ ''**Consistency requirements:**\<newline>''
       @ ''- Always use full canonical names on first mention\<newline>''
       @ ''- Link abbreviations to canonical forms\<newline>''
       @ ''- Maintain consistent entity IDs across chunks\<newline>''
       @ ''- Use snake_case for relationship names (e.g., is_subfield_of)\<newline>''\<close>
    by (elim conjE)
  from this u(1) have a: \<open>get_custom_prompt ''ai'' =
         ''\<newline>''
       @ ''You are extracting entities for a technical knowledge base.\<newline>''
       @ ''\<newline>''
       @ ''**Use canonical entity names (REQUIRED):**\<newline>''
       @ ''\<newline>''
       @ ''**Extract these entity types:**\<newline>''
       @ ''- **Concept**: Technical concepts, theories, algorithms\<newline>''
       @ ''- **Person**: Researchers, authors, experts (use full names)\<newline>''
       @ ''- **Organization**: Research labs, companies, universities\<newline>''
       @ ''- **Technology**: Tools, frameworks, systems\<newline>''
       @ ''- **Method**: Techniques, methodologies, approaches\<newline>''
       @ ''- **Paper**: Academic papers (extract title + year if available)\<newline>''
       @ ''\<newline>''
       @ ''**Relationship types:**\<newline>''
       @ ''- is_subfield_of: Subtopic '' @ [CHR 0xE2, CHR 0x86, CHR 0x92] @ '' main topic\<newline>''
       @ ''- builds_on: New concept '' @ [CHR 0xE2, CHR 0x86, CHR 0x92] @ '' foundational concept\<newline>''
       @ ''- developed_by: Technology '' @ [CHR 0xE2, CHR 0x86, CHR 0x92] @ '' creator\<newline>''
       @ ''- published_in: Paper '' @ [CHR 0xE2, CHR 0x86, CHR 0x92] @ '' venue\<newline>''
       @ ''- applied_to: Method '' @ [CHR 0xE2, CHR 0x86, CHR 0x92] @ '' application domain\<newline>''
       @ ''- related_to: General conceptual connections\<newline>''
       @ ''\<newline>''
       @ ''**Consistency requirements:**\<newline>''
       @ ''- Always use full canonical names on first mention\<newline>''
       @ ''- Link abbreviations to canonical forms\<newline>''
       @ ''- Maintain consistent entity IDs across chunks\<newline>''
       @ ''- Use snake_case for relationship names (e.g., is_subfield_of)\<newline>''\<close>
    by (rule mp)
  show ?thesis
    by (intro conjI u k b a)
qed

end
